theory Spec2Isabelle
  imports Complex_Main "HOL-Library.Sublist" "HOL-Library.Multiset"
begin

section \<open>Strings\<close>

text \<open>
  JavaScript strings are modelled as \<^typ>\<open>string\<close>, each character being a code
  unit below 256 (Latin-1). \<open>startsWith\<close> is \<^const>\<open>prefix\<close>;
  \<open>String.prototype.includes\<close> looks for a contiguous occurrence. \<open>toLowerCase\<close>
  maps the upper-case letters of that range, \<open>A\<close> to \<open>Z\<close> and \<open>U+00C0\<close> to
  \<open>U+00DE\<close> without the multiplication sign \<open>U+00D7\<close>, to the letter 32 places up.
\<close>

type_synonym bytes = string

fun str_includes :: "string \<Rightarrow> string \<Rightarrow> bool" where
  "str_includes [] sub = (sub = [])"
| "str_includes (c # cs) sub = (prefix sub (c # cs) \<or> str_includes cs sub)"

definition lower_char :: "char \<Rightarrow> char" where
  "lower_char c =
     (let n = (of_char c :: nat)
      in if (65 \<le> n \<and> n \<le> 90) \<or> (192 \<le> n \<and> n \<le> 222 \<and> n \<noteq> 215) then char_of (n + 32) else c)"

definition toLowerCase :: "string \<Rightarrow> string" where
  "toLowerCase s = map lower_char s"

definition digit_char :: "nat \<Rightarrow> char" where
  "digit_char d = ''0123456789'' ! d"

text \<open>The decimal rendering of a number inside a template literal.\<close>

function decimal :: "nat \<Rightarrow> string" where
  "decimal n = (if n < 10 then [digit_char n] else decimal (n div 10) @ [digit_char (n mod 10)])"
  by pat_completeness auto
termination
  by (relation "measure id") auto

declare decimal.simps [simp del]

subsection \<open>\<open>path.extname\<close>\<close>

text \<open>
  Node's \<open>path.extname\<close> (POSIX flavour) scans the path from its last character
  backwards. The loop state is kept in a record; \<open>-1\<close> means "not seen yet", as in the
  library.
\<close>

record ext_state =
  startDot :: int
  startPart :: int
  end_pos :: int
  matchedSlash :: bool
  preDotState :: int

definition ext_init :: ext_state where
  "ext_init = \<lparr>startDot = -1, startPart = 0, end_pos = -1, matchedSlash = True, preDotState = 0\<rparr>"

text \<open>\<open>extname_loop p (Suc i) s\<close> handles index \<open>i\<close> and goes on to \<open>i - 1\<close>.\<close>

fun extname_loop :: "string \<Rightarrow> nat \<Rightarrow> ext_state \<Rightarrow> ext_state" where
  "extname_loop p 0 s = s"
| "extname_loop p (Suc i) s =
     (let code = p ! i in
      if code = CHR ''/'' then
        (if \<not> matchedSlash s then s\<lparr>startPart := int i + 1\<rparr>
         else extname_loop p i s)
      else
        let s1 = (if end_pos s = -1 then s\<lparr>matchedSlash := False, end_pos := int i + 1\<rparr> else s);
            s2 = (if code = CHR ''.'' then
                    (if startDot s1 = -1 then s1\<lparr>startDot := int i\<rparr>
                     else if preDotState s1 \<noteq> 1 then s1\<lparr>preDotState := 1\<rparr>
                     else s1)
                  else if startDot s1 \<noteq> -1 then s1\<lparr>preDotState := -1\<rparr>
                  else s1)
        in extname_loop p i s2)"

definition extname :: "string \<Rightarrow> string" where
  "extname p =
     (let s = extname_loop p (length p) ext_init in
      if startDot s = -1 \<or> end_pos s = -1 \<or> preDotState s = 0 \<or>
         (preDotState s = 1 \<and> startDot s = end_pos s - 1 \<and> startDot s = startPart s + 1)
      then []
      else take (nat (end_pos s - startDot s)) (drop (nat (startDot s)) p))"

section \<open>File resource handler (\<open>routes/files.ts\<close>)\<close>

text \<open>
  An uploaded \<open>File\<close> has a client-supplied name, a declared media type and its
  bytes; \<open>file.size\<close> is the number of bytes.
\<close>

record upload_file =
  fname :: string
  ftype :: string
  fdata :: bytes

definition fsize :: "upload_file \<Rightarrow> nat" where
  "fsize f = length (fdata f)"

text \<open>
  The Blob Store is the directory \<open>filesDir\<close>, a map from the name of a regular file
  in it to the file's bytes. Writing to it is assumed to succeed, so the only exception
  inside the upload's \<open>try\<close> block is the encoder's.
\<close>

type_synonym blob_store = "string \<rightharpoonup> bytes"

text \<open>
  What the handler takes from outside: \<open>Date.now()\<close> and
  \<open>Math.random().toString(36).substring(2, 10)\<close> at the \<open>k\<close>-th entry of a request,
  and \<open>sharp(buffer).jpeg({quality: 80})\<close>, which throws on bytes it cannot decode
  (\<open>None\<close>).
\<close>

record env =
  now :: "nat \<Rightarrow> nat"
  randomString :: "nat \<Rightarrow> string"
  sharp_jpeg80 :: "bytes \<Rightarrow> bytes option"

definition generateSanitizedFilename :: "nat \<Rightarrow> string \<Rightarrow> string \<Rightarrow> string" where
  "generateSanitizedFilename timestamp randomStr originalName =
     (let ext = toLowerCase (extname originalName)
      in decimal timestamp @ ''-'' @ randomStr @ ext)"

definition videoName :: string where
  "videoName = ''video.mp4''"

text \<open>\<open>processVideo\<close> writes the buffer as it is.\<close>

definition processVideo :: "bytes \<Rightarrow> string \<Rightarrow> blob_store \<Rightarrow> blob_store" where
  "processVideo inputBuffer outputPath store = store(outputPath \<mapsto> inputBuffer)"

record processed =
  pname :: string
  psize :: nat
  ptype :: string

datatype upload_response =
    UploadError nat string
  | Uploaded nat string "processed list"

datatype part = TextPart string | FilePart upload_file

datatype form_value = Single part | Multiple "part list"

text \<open>The first loop of the upload handler: the \<open>File\<close> objects of the parsed body.\<close>

fun files_of_value :: "form_value \<Rightarrow> upload_file list" where
  "files_of_value (Single (FilePart f)) = [f]"
| "files_of_value (Single (TextPart t)) = []"
| "files_of_value (Multiple (FilePart f # ps)) =
     concat (map (\<lambda>p. case p of FilePart g \<Rightarrow> [g] | TextPart t \<Rightarrow> []) (FilePart f # ps))"
| "files_of_value (Multiple ps) = []"

definition collect_files :: "(string \<times> form_value) list \<Rightarrow> upload_file list" where
  "collect_files formData = concat (map (\<lambda>(key, v). files_of_value v) formData)"

text \<open>The two checks at the head of the second loop's body; \<open>Some\<close> is the 400 message.\<close>

definition validate_entry :: "upload_file \<Rightarrow> string option" where
  "validate_entry f =
     (let isImage = prefix ''image/'' (ftype f);
          isVideo = prefix ''video/'' (ftype f)
      in if \<not> isImage \<and> \<not> isVideo then
           Some (''Invalid file type for '' @ fname f @ ''. Only image and video files are allowed.'')
         else
           let maxSize = (if isImage then 50 * 1024 * 1024 else 1024 * 1024 * 1024);
               maxSizeStr = (if isImage then ''50MB'' else ''1GB'')
           in if fsize f > maxSize then
                Some (''File '' @ fname f @ '' exceeds the '' @ maxSizeStr @ '' limit.'')
              else None)"

text \<open>
  The second loop: each entry is validated and then processed before the next entry
  is looked at. \<open>k\<close> counts the entries handled so far.
\<close>

fun process_files ::
  "env \<Rightarrow> nat \<Rightarrow> blob_store \<Rightarrow> upload_file list \<Rightarrow> processed list \<Rightarrow> upload_response \<times> blob_store" where
  "process_files e k store [] processedFiles =
     (Uploaded 201 ''Files uploaded and processed successfully'' processedFiles, store)"
| "process_files e k store (f # rest) processedFiles =
     (case validate_entry f of
        Some msg \<Rightarrow> (UploadError 400 msg, store)
      | None \<Rightarrow>
          if prefix ''image/'' (ftype f) then
            (let fileName = generateSanitizedFilename (now e k) (randomString e k) (fname f)
             in case sharp_jpeg80 e (fdata f) of
                  None \<Rightarrow> (UploadError 500 (''Failed to process file '' @ fname f), store)
                | Some jpeg \<Rightarrow>
                    process_files e (Suc k) (store(fileName \<mapsto> jpeg)) rest
                      (processedFiles @
                        [\<lparr>pname = fileName, psize = length jpeg, ptype = ''image/jpeg''\<rparr>]))
          else
            (let store' = processVideo (fdata f) videoName store
             in process_files e (Suc k) store' rest
                  (processedFiles @
                    [\<lparr>pname = ''video.mp4'', psize = length (fdata f), ptype = ''video/mp4''\<rparr>])))"



definition files_post ::
  "env \<Rightarrow> blob_store \<Rightarrow> (string \<times> form_value) list \<Rightarrow> upload_response \<times> blob_store" where
  "files_post e store formData = process_files e 0 store (collect_files formData) []"

subsection \<open>Serving\<close>

datatype fs_op = Access string | ReadFile string

datatype serve_response =
    ServeError nat string
  | Body string bytes

definition contentType_of :: "string \<Rightarrow> string" where
  "contentType_of ext =
     (if ext \<in> set [''.jpg'', ''.jpeg''] then ''image/jpeg''
      else if ext = ''.png'' then ''image/png''
      else if ext = ''.gif'' then ''image/gif''
      else if ext = ''.webp'' then ''image/webp''
      else if ext = ''.svg'' then ''image/svg+xml''
      else if ext = ''.mp4'' then ''video/mp4''
      else if ext = ''.webm'' then ''video/webm''
      else if ext = ''.ogg'' then ''video/ogg''
      else if ext = ''.avi'' then ''video/x-msvideo''
      else if ext = ''.mov'' then ''video/quicktime''
      else if ext = ''.wmv'' then ''video/x-ms-wmv''
      else if ext = ''.flv'' then ''video/x-flv''
      else if ext = ''.mkv'' then ''video/x-matroska''
      else ''application/octet-stream'')"

text \<open>
  The serve handler returns its response together with the file-system calls it made,
  in order. Paths are relative to \<open>filesDir\<close>.
\<close>

definition files_get :: "blob_store \<Rightarrow> string \<Rightarrow> serve_response \<times> fs_op list" where
  "files_get store filename =
     (if filename = ''video.mp4'' then
        (case store videoName of
           None \<Rightarrow> (ServeError 404 ''Video file not found'', [Access videoName])
         | Some fileBuffer \<Rightarrow> (Body ''video/mp4'' fileBuffer, [Access videoName, ReadFile videoName]))
      else if str_includes filename ''..'' \<or> str_includes filename ''/'' \<or> str_includes filename [CHR 0x5C] then
        (ServeError 400 ''Invalid filename'', [])
      else
        (case store filename of
           None \<Rightarrow> (ServeError 404 ''File not found'', [Access filename])
         | Some fileBuffer \<Rightarrow>
             (Body (contentType_of (toLowerCase (extname filename))) fileBuffer,
              [Access filename, ReadFile filename])))"

subsection \<open>Sample inputs\<close>

text \<open>
  A concrete environment and two concrete uploads, used where a property is evaluated on
  an explicit request.
\<close>

definition demo_env :: env where
  "demo_env = \<lparr>now = (\<lambda>k. 1700000000000 + k), randomString = (\<lambda>k. ''k3x9q2ab''),
                sharp_jpeg80 = (\<lambda>b. Some (''JPEG'' @ b))\<rparr>"

definition photo_png :: upload_file where
  "photo_png = \<lparr>fname = ''photo.png'', ftype = ''image/png'', fdata = ''PNGDATA''\<rparr>"



section \<open>Entity resource handlers\<close>

subsection \<open>Requests, responses and schema validation\<close>

text \<open>
  A handler answers with \<open>c.json({error}, status)\<close>, \<open>c.json({data})\<close> or
  \<open>c.json({message, data}, status)\<close>. \<open>SchemaViolation\<close> is the 400 answer of
  the \<open>zValidator\<close> middleware, which runs before the handler body. \<open>Uncaught\<close>
  stands for an exception that leaves a handler without a \<open>try\<close> block; the
  framework answers it with status 500.
\<close>

datatype 'a response =
    SchemaViolation
  | JsonError nat string
  | JsonData 'a
  | JsonMessage nat string 'a
  | Uncaught

fun status :: "'a response \<Rightarrow> nat" where
  "status SchemaViolation = 400"
| "status (JsonError code msg) = code"
| "status (JsonData d) = 200"
| "status (JsonMessage code msg d) = code"
| "status Uncaught = 500"

text \<open>
  A path parameter or body field under \<open>z.coerce.number()\<close> is first passed through
  JavaScript's \<open>Number(...)\<close>. The model starts from the result of that coercion:
  \<open>NaN\<close>, one of the two infinities (\<open>Number("1e309")\<close> is \<open>Infinity\<close>), or a
  finite number, given by the rational that its rendering \<open>String(n)\<close> denotes.
  \<open>MAX_VALUE\<close> is the rendering of \<open>Number.MAX_VALUE\<close>, the largest finite number;
  a \<open>Num\<close> beyond it in magnitude is not a finite number and is read as the infinity
  of its sign.
\<close>

datatype jsnum = NaN | Num rat | PosInfinity | NegInfinity

definition MAX_VALUE :: rat where
  "MAX_VALUE = 17976931348623157 * 10 ^ 292"

text \<open>
  \<open>z.coerce.number().min(m)\<close>. The number schema of the installed major version of
  the validation library (the one that has the top-level \<open>z.email()\<close> used in
  \<open>types.ts\<close>) accepts finite numbers only: \<open>NaN\<close> and the infinities are schema
  violations.
\<close>

definition coerce_number_min :: "rat \<Rightarrow> jsnum \<Rightarrow> rat option" where
  "coerce_number_min m v =
     (case v of
        NaN \<Rightarrow> None
      | PosInfinity \<Rightarrow> None
      | NegInfinity \<Rightarrow> None
      | Num x \<Rightarrow> if \<bar>x\<bar> \<le> MAX_VALUE \<and> m \<le> x then Some x else None)"

text \<open>\<open>z.object({ id: z.coerce.number().min(1) })\<close>, the parameter schema of every route with an id.\<close>

definition id_param :: "jsnum \<Rightarrow> rat option" where
  "id_param raw = coerce_number_min 1 raw"

subsection \<open>The persistent store\<close>

text \<open>
  A table holds its rows in store order, each with the identity-generated \<open>id\<close>, and
  the next value of the identity sequence. The store is assumed to be reachable; a
  statement fails (the driver throws) when a bound parameter does not fit its column as
  declared in \<open>db/schema.ts\<close>: an \<open>integer\<close> column takes a whole number in the
  32-bit range; a \<open>varchar({length: 255})\<close> column takes at most 255 characters,
  except that a longer value whose excess is only spaces is cut to 255 characters and
  stored; \<open>numeric({precision: 10, scale: 2})\<close> rounds to two fraction digits and
  takes at most eight integer digits.
\<close>

record 'f table =
  rows :: "(int \<times> 'f) list"
  next_id :: int

definition pg_int4 :: "rat \<Rightarrow> int option" where
  "pg_int4 x =
     (if x = of_int \<lfloor>x\<rfloor> \<and> - 2147483648 \<le> \<lfloor>x\<rfloor> \<and> \<lfloor>x\<rfloor> \<le> 2147483647 then Some \<lfloor>x\<rfloor> else None)"

definition varchar255 :: "string \<Rightarrow> bool" where
  "varchar255 s \<longleftrightarrow> length s \<le> 255 \<or> list_all (\<lambda>c. c = CHR '' '') (drop 255 s)"

text \<open>The value a \<open>varchar({length: 255})\<close> column stores for an accepted string.\<close>

definition as_varchar255 :: "string \<Rightarrow> string" where
  "as_varchar255 s = take 255 s"

definition pg_numeric_10_2 :: "rat \<Rightarrow> rat option" where
  "pg_numeric_10_2 x =
     (let cents = (if 0 \<le> x then \<lfloor>x * 100 + 1 / 2\<rfloor> else - \<lfloor>- x * 100 + 1 / 2\<rfloor>)
      in if \<bar>cents\<bar> < 10000000000 then Some (of_int cents / 100) else None)"

definition opt_ok :: "('a \<Rightarrow> bool) \<Rightarrow> 'a option \<Rightarrow> bool" where
  "opt_ok P v = (case v of None \<Rightarrow> True | Some x \<Rightarrow> P x)"

text \<open>\<open>if (x !== undefined) updates.f = x\<close>: the column keeps its value unless the field is present.\<close>

definition set_opt :: "'a option \<Rightarrow> 'a \<Rightarrow> 'a" where
  "set_opt v old = (case v of None \<Rightarrow> old | Some x \<Rightarrow> x)"

text \<open>\<open>if (s)\<close> on an optional string: present and not empty.\<close>

definition truthy :: "string option \<Rightarrow> bool" where
  "truthy v = (case v of None \<Rightarrow> False | Some s \<Rightarrow> s \<noteq> [])"

definition select_by_id :: "('f, 'm) table_scheme \<Rightarrow> int \<Rightarrow> (int \<times> 'f) list" where
  "select_by_id t i = filter (\<lambda>r. fst r = i) (rows t)"

definition insert_row :: "'f \<Rightarrow> ('f, 'm) table_scheme \<Rightarrow> (int \<times> 'f) \<times> ('f, 'm) table_scheme" where
  "insert_row f t =
     ((next_id t, f), t\<lparr>rows := rows t @ [(next_id t, f)], next_id := next_id t + 1\<rparr>)"

definition update_rows ::
  "('f \<Rightarrow> 'f) \<Rightarrow> int \<Rightarrow> ('f, 'm) table_scheme \<Rightarrow> (int \<times> 'f) list \<times> ('f, 'm) table_scheme" where
  "update_rows upd i t =
     (let rows' = map (\<lambda>r. if fst r = i then (fst r, upd (snd r)) else r) (rows t)
      in (filter (\<lambda>r. fst r = i) rows', t\<lparr>rows := rows'\<rparr>))"

definition delete_rows ::
  "int \<Rightarrow> ('f, 'm) table_scheme \<Rightarrow> (int \<times> 'f) list \<times> ('f, 'm) table_scheme" where
  "delete_rows i t =
     (filter (\<lambda>r. fst r = i) (rows t), t\<lparr>rows := filter (\<lambda>r. fst r \<noteq> i) (rows t)\<rparr>)"

text \<open>
  What becomes of a store exception: the \<open>catch\<close> block's 500 message where the
  handler has one, an uncaught exception otherwise.
\<close>

definition store_failure :: "string option \<Rightarrow> 'a response" where
  "store_failure catch = (case catch of None \<Rightarrow> Uncaught | Some msg \<Rightarrow> JsonError 500 msg)"

text \<open>
  \<open>GET /:id\<close> and \<open>DELETE /:id\<close> have the same body in every route file, up to
  the table, the messages and the presence of a \<open>try\<close> block.
\<close>

definition get_by_id_route ::
  "string option \<Rightarrow> string \<Rightarrow> ('f, 'm) table_scheme \<Rightarrow> jsnum \<Rightarrow> (int \<times> 'f) response" where
  "get_by_id_route catch notFound t raw =
     (case id_param raw of
        None \<Rightarrow> SchemaViolation
      | Some idn \<Rightarrow>
          (case pg_int4 idn of
             None \<Rightarrow> store_failure catch
           | Some i \<Rightarrow>
               (case select_by_id t i of
                  [] \<Rightarrow> JsonError 404 notFound
                | r # rs \<Rightarrow> JsonData r)))"

definition delete_route ::
  "string option \<Rightarrow> string \<Rightarrow> string \<Rightarrow> ('f, 'm) table_scheme \<Rightarrow> jsnum
     \<Rightarrow> (int \<times> 'f) response \<times> ('f, 'm) table_scheme" where
  "delete_route catch notFound deleted t raw =
     (case id_param raw of
        None \<Rightarrow> (SchemaViolation, t)
      | Some idn \<Rightarrow>
          (case pg_int4 idn of
             None \<Rightarrow> (store_failure catch, t)
           | Some i \<Rightarrow>
               (case delete_rows i t of
                  ([], t') \<Rightarrow> (JsonError 404 notFound, t')
                | (r # rs, t') \<Rightarrow> (JsonMessage 200 deleted r, t'))))"

text \<open>
  \<open>fs.access(path.join(filesDir, name))\<close> is a parameter \<open>access\<close> of the handlers
  that check a blob reference: does the referenced path exist.
\<close>

subsection \<open>Carousel images (\<open>routes/carouselImages.ts\<close>)\<close>

record carousel_image =
  ci_filename :: string
  ci_row :: int
  ci_index :: int

text \<open>The \<open>index\<close> column is a \<open>smallserial\<close>: it has a sequence of its own.\<close>

record 'f serial_table = "'f table" +
  next_index :: int

type_synonym carousel_table = "carousel_image serial_table"

record carousel_create =
  cc_filename :: string
  cc_row :: rat

record carousel_update =
  cu_filename :: "string option"
  cu_row :: "rat option"

definition CarouselImageCreateSchema :: "carousel_create \<Rightarrow> bool" where
  "CarouselImageCreateSchema p \<longleftrightarrow> cc_filename p \<noteq> [] \<and> 1 \<le> cc_row p"

definition CarouselImageUpdateSchema :: "carousel_update \<Rightarrow> bool" where
  "CarouselImageUpdateSchema p \<longleftrightarrow>
     opt_ok (\<lambda>s. s \<noteq> []) (cu_filename p) \<and> opt_ok (\<lambda>r. 1 \<le> r) (cu_row p)"

definition carouselImages_post ::
  "(string \<Rightarrow> bool) \<Rightarrow> carousel_create \<Rightarrow> carousel_table
     \<Rightarrow> (int \<times> carousel_image) response \<times> carousel_table" where
  "carouselImages_post access p t =
     (if \<not> CarouselImageCreateSchema p then (SchemaViolation, t)
      else if \<not> access (cc_filename p) then (JsonError 404 ''File not found'', t)
      else
        (case pg_int4 (cc_row p) of
           None \<Rightarrow> (Uncaught, t)
         | Some r \<Rightarrow>
             if \<not> varchar255 (cc_filename p) then (Uncaught, t)
             else
               (let (result, t') =
                      insert_row \<lparr>ci_filename = as_varchar255 (cc_filename p), ci_row = r,
                                   ci_index = next_index t\<rparr> t
                in (JsonMessage 201 ''Carousel image created successfully'' result,
                    t'\<lparr>next_index := next_index t + 1\<rparr>))))"

definition carouselImages_patch ::
  "(string \<Rightarrow> bool) \<Rightarrow> jsnum \<Rightarrow> carousel_update \<Rightarrow> carousel_table
     \<Rightarrow> (int \<times> carousel_image) response \<times> carousel_table" where
  "carouselImages_patch access raw p t =
     (case id_param raw of
        None \<Rightarrow> (SchemaViolation, t)
      | Some idn \<Rightarrow>
          if \<not> CarouselImageUpdateSchema p then (SchemaViolation, t)
          else if cu_filename p = None \<and> cu_row p = None then
            (JsonError 400 ''At least one field (filename or row) is required'', t)
          else if truthy (cu_filename p) \<and> \<not> access (the (cu_filename p)) then
            (JsonError 404 ''File not found'', t)
          else
            (case (pg_int4 idn, map_option pg_int4 (cu_row p)) of
               (None, r) \<Rightarrow> (Uncaught, t)
             | (Some i, Some None) \<Rightarrow> (Uncaught, t)
             | (Some i, r) \<Rightarrow>
                 if \<not> opt_ok varchar255 (cu_filename p) then (Uncaught, t)
                 else
                   (case update_rows
                           (\<lambda>f. f\<lparr>ci_filename :=
                                     set_opt (map_option as_varchar255 (cu_filename p)) (ci_filename f),
                                   ci_row := set_opt (map_option the r) (ci_row f)\<rparr>) i t of
                      ([], t') \<Rightarrow> (JsonError 404 ''Carousel image not found'', t')
                    | (x # xs, t') \<Rightarrow>
                        (JsonMessage 200 ''Carousel image updated successfully'' x, t'))))"

definition carouselImages_delete ::
  "carousel_table \<Rightarrow> jsnum \<Rightarrow> (int \<times> carousel_image) response \<times> carousel_table" where
  "carouselImages_delete =
     delete_route None ''Carousel image not found'' ''Carousel image deleted successfully''"

definition carouselImages_get_all :: "carousel_table \<Rightarrow> (int \<times> carousel_image) list response" where
  "carouselImages_get_all t = JsonData (rows t)"

definition carouselImages_get_by_id ::
  "carousel_table \<Rightarrow> jsnum \<Rightarrow> (int \<times> carousel_image) response" where
  "carouselImages_get_by_id = get_by_id_route None ''Carousel image not found''"

text \<open>
  \<open>GET /row/:rowId\<close>: \<open>where(eq(row, rowId)).orderBy(index)\<close>. Rows with equal
  \<open>index\<close> are kept in store order.
\<close>

definition carouselImages_get_by_row ::
  "carousel_table \<Rightarrow> jsnum \<Rightarrow> (int \<times> carousel_image) list response" where
  "carouselImages_get_by_row t raw =
     (case coerce_number_min 1 raw of
        None \<Rightarrow> SchemaViolation
      | Some rowId \<Rightarrow>
          (case pg_int4 rowId of
             None \<Rightarrow> Uncaught
           | Some r \<Rightarrow>
               JsonData (sort_key (\<lambda>x. ci_index (snd x)) (filter (\<lambda>x. ci_row (snd x) = r) (rows t)))))"

subsection \<open>Works (\<open>routes/works.ts\<close>)\<close>

record work =
  w_title :: string
  w_image :: string

record work_update =
  wu_title :: "string option"
  wu_image :: "string option"

definition WorkCreateSchema :: "work \<Rightarrow> bool" where
  "WorkCreateSchema p \<longleftrightarrow> w_title p \<noteq> [] \<and> w_image p \<noteq> []"

definition WorkUpdateSchema :: "work_update \<Rightarrow> bool" where
  "WorkUpdateSchema p \<longleftrightarrow>
     opt_ok (\<lambda>s. s \<noteq> []) (wu_title p) \<and> opt_ok (\<lambda>s. s \<noteq> []) (wu_image p)"

definition works_post ::
  "(string \<Rightarrow> bool) \<Rightarrow> work \<Rightarrow> work table \<Rightarrow> (int \<times> work) response \<times> work table" where
  "works_post access p t =
     (if \<not> WorkCreateSchema p then (SchemaViolation, t)
      else if \<not> access (w_image p) then (JsonError 404 ''File not found'', t)
      else if \<not> (varchar255 (w_title p) \<and> varchar255 (w_image p)) then (Uncaught, t)
      else
        (let (result, t') = insert_row \<lparr>w_title = as_varchar255 (w_title p), w_image = as_varchar255 (w_image p)\<rparr> t
         in (JsonMessage 201 ''Work created successfully'' result, t')))"

definition works_patch ::
  "(string \<Rightarrow> bool) \<Rightarrow> jsnum \<Rightarrow> work_update \<Rightarrow> work table
     \<Rightarrow> (int \<times> work) response \<times> work table" where
  "works_patch access raw p t =
     (case id_param raw of
        None \<Rightarrow> (SchemaViolation, t)
      | Some idn \<Rightarrow>
          if \<not> WorkUpdateSchema p then (SchemaViolation, t)
          else if wu_title p = None \<and> wu_image p = None then
            (JsonError 400 ''At least one field (title or image) is required'', t)
          else if truthy (wu_image p) \<and> \<not> access (the (wu_image p)) then
            (JsonError 404 ''File not found'', t)
          else
            (case pg_int4 idn of
               None \<Rightarrow> (Uncaught, t)
             | Some i \<Rightarrow>
                 if \<not> (opt_ok varchar255 (wu_title p) \<and> opt_ok varchar255 (wu_image p)) then
                   (Uncaught, t)
                 else
                   (case update_rows
                           (\<lambda>f. f\<lparr>w_title := set_opt (map_option as_varchar255 (wu_title p)) (w_title f),
                                   w_image := set_opt (map_option as_varchar255 (wu_image p)) (w_image f)\<rparr>)
                           i t of
                      ([], t') \<Rightarrow> (JsonError 404 ''Work not found'', t')
                    | (x # xs, t') \<Rightarrow> (JsonMessage 200 ''Work updated successfully'' x, t'))))"

definition works_delete :: "work table \<Rightarrow> jsnum \<Rightarrow> (int \<times> work) response \<times> work table" where
  "works_delete = delete_route None ''Work not found'' ''Work deleted successfully''"

definition works_get_by_id :: "work table \<Rightarrow> jsnum \<Rightarrow> (int \<times> work) response" where
  "works_get_by_id = get_by_id_route None ''Work not found''"

subsection \<open>Testimonials (\<open>routes/testimonials.ts\<close>)\<close>

record testimonial =
  t_name :: string
  t_designation :: string
  t_company :: string
  t_image :: string
  t_content :: string

record testimonial_update =
  tu_name :: "string option"
  tu_designation :: "string option"
  tu_company :: "string option"
  tu_image :: "string option"
  tu_content :: "string option"

definition TestimonialCreateSchema :: "testimonial \<Rightarrow> bool" where
  "TestimonialCreateSchema p \<longleftrightarrow>
     t_name p \<noteq> [] \<and> t_designation p \<noteq> [] \<and> t_company p \<noteq> [] \<and> t_image p \<noteq> [] \<and> t_content p \<noteq> []"

definition TestimonialUpdateSchema :: "testimonial_update \<Rightarrow> bool" where
  "TestimonialUpdateSchema p \<longleftrightarrow>
     opt_ok (\<lambda>s. s \<noteq> []) (tu_name p) \<and> opt_ok (\<lambda>s. s \<noteq> []) (tu_designation p) \<and>
     opt_ok (\<lambda>s. s \<noteq> []) (tu_company p) \<and> opt_ok (\<lambda>s. s \<noteq> []) (tu_image p) \<and>
     opt_ok (\<lambda>s. s \<noteq> []) (tu_content p)"

text \<open>\<open>Object.keys(testimonialData).length === 0\<close>\<close>

definition testimonial_no_keys :: "testimonial_update \<Rightarrow> bool" where
  "testimonial_no_keys p \<longleftrightarrow>
     tu_name p = None \<and> tu_designation p = None \<and> tu_company p = None \<and> tu_image p = None \<and>
     tu_content p = None"

definition testimonials_post ::
  "testimonial \<Rightarrow> testimonial table \<Rightarrow> (int \<times> testimonial) response \<times> testimonial table" where
  "testimonials_post p t =
     (if \<not> TestimonialCreateSchema p then (SchemaViolation, t)
      else if \<not> (varchar255 (t_name p) \<and> varchar255 (t_designation p) \<and> varchar255 (t_company p) \<and>
                  varchar255 (t_image p) \<and> varchar255 (t_content p)) then
        (JsonError 500 ''Failed to create testimonial'', t)
      else
        (let (result, t') =
               insert_row \<lparr>t_name = as_varchar255 (t_name p),
                            t_designation = as_varchar255 (t_designation p),
                            t_company = as_varchar255 (t_company p),
                            t_image = as_varchar255 (t_image p),
                            t_content = as_varchar255 (t_content p)\<rparr> t
         in (JsonMessage 201 ''Testimonial created successfully'' result, t')))"

definition testimonials_patch ::
  "jsnum \<Rightarrow> testimonial_update \<Rightarrow> testimonial table
     \<Rightarrow> (int \<times> testimonial) response \<times> testimonial table" where
  "testimonials_patch raw p t =
     (case id_param raw of
        None \<Rightarrow> (SchemaViolation, t)
      | Some idn \<Rightarrow>
          if \<not> TestimonialUpdateSchema p then (SchemaViolation, t)
          else if testimonial_no_keys p then
            (JsonError 400 ''At least one field is required for update'', t)
          else
            (case pg_int4 idn of
               None \<Rightarrow> (JsonError 500 ''Failed to update testimonial'', t)
             | Some i \<Rightarrow>
                 if \<not> (opt_ok varchar255 (tu_name p) \<and> opt_ok varchar255 (tu_designation p) \<and>
                        opt_ok varchar255 (tu_company p) \<and> opt_ok varchar255 (tu_image p) \<and>
                        opt_ok varchar255 (tu_content p)) then
                   (JsonError 500 ''Failed to update testimonial'', t)
                 else
                   (case update_rows
                           (\<lambda>f. f\<lparr>t_name := set_opt (map_option as_varchar255 (tu_name p)) (t_name f),
                                   t_designation := set_opt (map_option as_varchar255 (tu_designation p)) (t_designation f),
                                   t_company := set_opt (map_option as_varchar255 (tu_company p)) (t_company f),
                                   t_image := set_opt (map_option as_varchar255 (tu_image p)) (t_image f),
                                   t_content := set_opt (map_option as_varchar255 (tu_content p)) (t_content f)\<rparr>) i t of
                      ([], t') \<Rightarrow> (JsonError 404 ''Testimonial not found'', t')
                    | (x # xs, t') \<Rightarrow>
                        (JsonMessage 200 ''Testimonial updated successfully'' x, t'))))"

definition testimonials_delete ::
  "testimonial table \<Rightarrow> jsnum \<Rightarrow> (int \<times> testimonial) response \<times> testimonial table" where
  "testimonials_delete =
     delete_route (Some ''Failed to delete testimonial'') ''Testimonial not found''
       ''Testimonial deleted successfully''"

definition testimonials_get_by_id ::
  "testimonial table \<Rightarrow> jsnum \<Rightarrow> (int \<times> testimonial) response" where
  "testimonials_get_by_id =
     get_by_id_route (Some ''Failed to fetch testimonial'') ''Testimonial not found''"

subsection \<open>Attorneys (\<open>routes/attorneys.ts\<close>)\<close>

text \<open>
  The create schema gives \<open>designation\<close> the default \<open>Attorney\<close>, so the validated
  create payload always carries one.
\<close>

record attorney =
  a_name :: string
  a_designation :: string
  a_image :: string

record attorney_update =
  au_name :: "string option"
  au_designation :: "string option"
  au_image :: "string option"

definition AttorneyCreateSchema :: "attorney \<Rightarrow> bool" where
  "AttorneyCreateSchema p \<longleftrightarrow> a_name p \<noteq> [] \<and> a_designation p \<noteq> [] \<and> a_image p \<noteq> []"

text \<open>
  \<open>AttorneySchema.partial().omit({id: true})\<close>. \<open>designation\<close> is declared with
  \<open>.optional().default("Attorney")\<close>, and the installed major version of the
  validation library applies a default also under \<open>.partial()\<close>: when the request
  body has no \<open>designation\<close> key, the validated payload carries
  \<open>designation: "Attorney"\<close>. The schema is therefore a function from the request
  payload to the validated one (\<open>None\<close>: schema violation).
\<close>

definition AttorneyUpdateSchema :: "attorney_update \<Rightarrow> attorney_update option" where
  "AttorneyUpdateSchema p =
     (if opt_ok (\<lambda>s. s \<noteq> []) (au_name p) \<and> opt_ok (\<lambda>s. s \<noteq> []) (au_designation p) \<and>
         opt_ok (\<lambda>s. s \<noteq> []) (au_image p)
      then Some (p\<lparr>au_designation :=
                     Some (case au_designation p of None \<Rightarrow> ''Attorney'' | Some d \<Rightarrow> d)\<rparr>)
      else None)"

definition attorney_no_keys :: "attorney_update \<Rightarrow> bool" where
  "attorney_no_keys p \<longleftrightarrow> au_name p = None \<and> au_designation p = None \<and> au_image p = None"

definition attorneys_post ::
  "(string \<Rightarrow> bool) \<Rightarrow> attorney \<Rightarrow> attorney table \<Rightarrow> (int \<times> attorney) response \<times> attorney table" where
  "attorneys_post access p t =
     (if \<not> AttorneyCreateSchema p then (SchemaViolation, t)
      else if \<not> access (a_image p) then (JsonError 404 ''File not found'', t)
      else if \<not> (varchar255 (a_name p) \<and> varchar255 (a_designation p) \<and> varchar255 (a_image p)) then
        (JsonError 500 ''Failed to create attorney'', t)
      else
        (let (result, t') =
               insert_row \<lparr>a_name = as_varchar255 (a_name p),
                            a_designation = as_varchar255 (a_designation p),
                            a_image = as_varchar255 (a_image p)\<rparr> t
         in (JsonMessage 201 ''Attorney created successfully'' result, t')))"

definition attorneys_patch ::
  "(string \<Rightarrow> bool) \<Rightarrow> jsnum \<Rightarrow> attorney_update \<Rightarrow> attorney table
     \<Rightarrow> (int \<times> attorney) response \<times> attorney table" where
  "attorneys_patch access raw p t =
     (case id_param raw of
        None \<Rightarrow> (SchemaViolation, t)
      | Some idn \<Rightarrow>
          (case AttorneyUpdateSchema p of
             None \<Rightarrow> (SchemaViolation, t)
           | Some attorneyData \<Rightarrow>
               if attorney_no_keys attorneyData then
                 (JsonError 400 ''At least one field is required for update'', t)
               else if truthy (au_image attorneyData) \<and> \<not> access (the (au_image attorneyData)) then
                 (JsonError 404 ''File not found'', t)
               else
                 (case pg_int4 idn of
                    None \<Rightarrow> (JsonError 500 ''Failed to update attorney'', t)
                  | Some i \<Rightarrow>
                      if \<not> (opt_ok varchar255 (au_name attorneyData) \<and>
                             opt_ok varchar255 (au_designation attorneyData) \<and>
                             opt_ok varchar255 (au_image attorneyData)) then
                        (JsonError 500 ''Failed to update attorney'', t)
                      else
                        (case update_rows
                                (\<lambda>f. f\<lparr>a_name :=
                                          set_opt (map_option as_varchar255 (au_name attorneyData))
                                            (a_name f),
                                        a_designation :=
                                          set_opt (map_option as_varchar255 (au_designation attorneyData))
                                            (a_designation f),
                                        a_image :=
                                          set_opt (map_option as_varchar255 (au_image attorneyData))
                                            (a_image f)\<rparr>) i t of
                           ([], t') \<Rightarrow> (JsonError 404 ''Attorney not found'', t')
                         | (x # xs, t') \<Rightarrow>
                             (JsonMessage 200 ''Attorney updated successfully'' x, t')))))"

definition attorneys_delete ::
  "attorney table \<Rightarrow> jsnum \<Rightarrow> (int \<times> attorney) response \<times> attorney table" where
  "attorneys_delete =
     delete_route (Some ''Failed to delete attorney'') ''Attorney not found''
       ''Attorney deleted successfully''"

definition attorneys_get_by_id :: "attorney table \<Rightarrow> jsnum \<Rightarrow> (int \<times> attorney) response" where
  "attorneys_get_by_id = get_by_id_route (Some ''Failed to fetch attorney'') ''Attorney not found''"

subsection \<open>Blogs (\<open>routes/blogs.ts\<close>)\<close>

text \<open>
  Modelled from the spec: \<open>blogsTable\<close> is imported from \<open>db/schema.ts\<close>, which
  does not declare it. Its columns are taken from \<open>BlogSchema\<close> (title, author,
  content, image) together with the two server-assigned timestamps of the data model;
  no column limits are assumed. \<open>clock\<close> is the current time.
\<close>

record blog_create =
  b_title :: string
  b_author :: string
  b_content :: string
  b_image :: string

record blog = blog_create +
  created_at :: nat
  updated_at :: nat

record blog_update =
  bu_title :: "string option"
  bu_author :: "string option"
  bu_content :: "string option"
  bu_image :: "string option"

definition BlogCreateSchema :: "blog_create \<Rightarrow> bool" where
  "BlogCreateSchema p \<longleftrightarrow> b_title p \<noteq> [] \<and> b_author p \<noteq> [] \<and> b_content p \<noteq> [] \<and> b_image p \<noteq> []"

definition BlogUpdateSchema :: "blog_update \<Rightarrow> bool" where
  "BlogUpdateSchema p \<longleftrightarrow>
     opt_ok (\<lambda>s. s \<noteq> []) (bu_title p) \<and> opt_ok (\<lambda>s. s \<noteq> []) (bu_author p) \<and>
     opt_ok (\<lambda>s. s \<noteq> []) (bu_content p) \<and> opt_ok (\<lambda>s. s \<noteq> []) (bu_image p)"

definition blog_no_keys :: "blog_update \<Rightarrow> bool" where
  "blog_no_keys p \<longleftrightarrow> bu_title p = None \<and> bu_author p = None \<and> bu_content p = None \<and> bu_image p = None"

definition blogs_post ::
  "(string \<Rightarrow> bool) \<Rightarrow> nat \<Rightarrow> blog_create \<Rightarrow> blog table \<Rightarrow> (int \<times> blog) response \<times> blog table" where
  "blogs_post access clock p t =
     (if \<not> BlogCreateSchema p then (SchemaViolation, t)
      else if \<not> access (b_image p) then (JsonError 404 ''File not found'', t)
      else
        (let (result, t') =
               insert_row \<lparr>b_title = b_title p, b_author = b_author p, b_content = b_content p,
                            b_image = b_image p, created_at = clock, updated_at = clock\<rparr> t
         in (JsonMessage 201 ''Blog created successfully'' result, t')))"

definition blogs_patch ::
  "(string \<Rightarrow> bool) \<Rightarrow> nat \<Rightarrow> jsnum \<Rightarrow> blog_update \<Rightarrow> blog table
     \<Rightarrow> (int \<times> blog) response \<times> blog table" where
  "blogs_patch access clock raw p t =
     (case id_param raw of
        None \<Rightarrow> (SchemaViolation, t)
      | Some idn \<Rightarrow>
          if \<not> BlogUpdateSchema p then (SchemaViolation, t)
          else if blog_no_keys p then
            (JsonError 400 ''At least one field is required for update'', t)
          else if truthy (bu_image p) \<and> \<not> access (the (bu_image p)) then
            (JsonError 404 ''File not found'', t)
          else
            (case pg_int4 idn of
               None \<Rightarrow> (JsonError 500 ''Failed to update blog'', t)
             | Some i \<Rightarrow>
                 (case update_rows
                         (\<lambda>f. f\<lparr>b_title := set_opt (bu_title p) (b_title f),
                                 b_author := set_opt (bu_author p) (b_author f),
                                 b_content := set_opt (bu_content p) (b_content f),
                                 b_image := set_opt (bu_image p) (b_image f),
                                 updated_at := clock\<rparr>) i t of
                    ([], t') \<Rightarrow> (JsonError 404 ''Blog not found'', t')
                  | (x # xs, t') \<Rightarrow> (JsonMessage 200 ''Blog updated successfully'' x, t'))))"

definition blogs_delete :: "blog table \<Rightarrow> jsnum \<Rightarrow> (int \<times> blog) response \<times> blog table" where
  "blogs_delete =
     delete_route (Some ''Failed to delete blog'') ''Blog not found'' ''Blog deleted successfully''"

definition blogs_get_by_id :: "blog table \<Rightarrow> jsnum \<Rightarrow> (int \<times> blog) response" where
  "blogs_get_by_id = get_by_id_route (Some ''Failed to fetch blog'') ''Blog not found''"

subsection \<open>Promotional offers (\<open>routes/promotionalOffers.ts\<close>)\<close>

record promotional_offer =
  po_title :: string
  po_description :: string
  po_images :: "string list"
  po_link :: "string option"

record promotional_offer_update =
  pu_title :: "string option"
  pu_description :: "string option"
  pu_images :: "string list option"
  pu_link :: "string option"

definition PromotionalOfferCreateSchema :: "promotional_offer \<Rightarrow> bool" where
  "PromotionalOfferCreateSchema p \<longleftrightarrow> po_title p \<noteq> [] \<and> po_description p \<noteq> [] \<and> po_images p \<noteq> []"

definition PromotionalOfferUpdateSchema :: "promotional_offer_update \<Rightarrow> bool" where
  "PromotionalOfferUpdateSchema p \<longleftrightarrow>
     opt_ok (\<lambda>s. s \<noteq> []) (pu_title p) \<and> opt_ok (\<lambda>s. s \<noteq> []) (pu_description p) \<and>
     opt_ok (\<lambda>xs. xs \<noteq> []) (pu_images p)"

definition promotional_offer_no_keys :: "promotional_offer_update \<Rightarrow> bool" where
  "promotional_offer_no_keys p \<longleftrightarrow>
     pu_title p = None \<and> pu_description p = None \<and> pu_images p = None \<and> pu_link p = None"

text \<open>
  \<open>for (const filename of images) { try { await fs.access(...) } catch { return 404 } }\<close>:
  the first name that cannot be accessed, if any.
\<close>

definition first_missing :: "(string \<Rightarrow> bool) \<Rightarrow> string list \<Rightarrow> string option" where
  "first_missing access images = find (\<lambda>filename. \<not> access filename) images"

definition promotionalOffers_post ::
  "(string \<Rightarrow> bool) \<Rightarrow> promotional_offer \<Rightarrow> promotional_offer table
     \<Rightarrow> (int \<times> promotional_offer) response \<times> promotional_offer table" where
  "promotionalOffers_post access p t =
     (if \<not> PromotionalOfferCreateSchema p then (SchemaViolation, t)
      else
        (case first_missing access (po_images p) of
           Some filename \<Rightarrow> (JsonError 404 (''File not found: '' @ filename), t)
         | None \<Rightarrow>
             if \<not> (varchar255 (po_title p) \<and> varchar255 (po_description p) \<and>
                    opt_ok varchar255 (po_link p)) then
               (JsonError 500 ''Failed to create promotional offer'', t)
             else
               (let (result, t') =
                      insert_row \<lparr>po_title = as_varchar255 (po_title p),
                                   po_description = as_varchar255 (po_description p),
                                   po_images = po_images p,
                                   po_link = map_option as_varchar255 (po_link p)\<rparr> t
                in (JsonMessage 201 ''Promotional offer created successfully'' result, t'))))"

definition promotionalOffers_patch ::
  "(string \<Rightarrow> bool) \<Rightarrow> jsnum \<Rightarrow> promotional_offer_update \<Rightarrow> promotional_offer table
     \<Rightarrow> (int \<times> promotional_offer) response \<times> promotional_offer table" where
  "promotionalOffers_patch access raw p t =
     (case id_param raw of
        None \<Rightarrow> (SchemaViolation, t)
      | Some idn \<Rightarrow>
          if \<not> PromotionalOfferUpdateSchema p then (SchemaViolation, t)
          else if promotional_offer_no_keys p then
            (JsonError 400 ''At least one field is required for update'', t)
          else
            (case (case pu_images p of None \<Rightarrow> None | Some images \<Rightarrow> first_missing access images) of
               Some filename \<Rightarrow> (JsonError 404 (''File not found: '' @ filename), t)
             | None \<Rightarrow>
                 (case pg_int4 idn of
                    None \<Rightarrow> (JsonError 500 ''Failed to update promotional offer'', t)
                  | Some i \<Rightarrow>
                      if \<not> (opt_ok varchar255 (pu_title p) \<and> opt_ok varchar255 (pu_description p) \<and>
                             opt_ok varchar255 (pu_link p)) then
                        (JsonError 500 ''Failed to update promotional offer'', t)
                      else
                        (case update_rows
                                (\<lambda>f. f\<lparr>po_title :=
                                          set_opt (map_option as_varchar255 (pu_title p)) (po_title f),
                                        po_description :=
                                          set_opt (map_option as_varchar255 (pu_description p))
                                            (po_description f),
                                        po_images := set_opt (pu_images p) (po_images f),
                                        po_link := (case pu_link p of None \<Rightarrow> po_link f
                                                    | Some l \<Rightarrow> Some (as_varchar255 l))\<rparr>) i t of
                           ([], t') \<Rightarrow> (JsonError 404 ''Promotional offer not found'', t')
                         | (x # xs, t') \<Rightarrow>
                             (JsonMessage 200 ''Promotional offer updated successfully'' x, t')))))"

definition promotionalOffers_delete ::
  "promotional_offer table \<Rightarrow> jsnum
     \<Rightarrow> (int \<times> promotional_offer) response \<times> promotional_offer table" where
  "promotionalOffers_delete =
     delete_route (Some ''Failed to delete promotional offer'') ''Promotional offer not found''
       ''Promotional offer deleted successfully''"

definition promotionalOffers_get_by_id ::
  "promotional_offer table \<Rightarrow> jsnum \<Rightarrow> (int \<times> promotional_offer) response" where
  "promotionalOffers_get_by_id =
     get_by_id_route (Some ''Failed to fetch promotional offer'') ''Promotional offer not found''"

subsection \<open>Offers (\<open>routes/offers.ts\<close>)\<close>

text \<open>
  The price of a payload is the JavaScript number that the body's value is read as,
  given, like every number of the model, by the decimal that \<open>String(n)\<close> renders
  (\<open>19.99\<close> for the body text \<open>19.99\<close>). That rendering is what the statement
  \<open>${price}::numeric\<close> binds, and the \<open>numeric(10, 2)\<close> column keeps it as a
  decimal; a stored row holds the column's value.
\<close>

record offer =
  o_title :: string
  o_description :: string
  o_price :: rat

record offer_update =
  ou_title :: "string option"
  ou_description :: "string option"
  ou_price :: "rat option"

definition OfferCreateSchema :: "offer \<Rightarrow> bool" where
  "OfferCreateSchema p \<longleftrightarrow> o_title p \<noteq> [] \<and> o_description p \<noteq> [] \<and> 0 \<le> o_price p"

definition OfferUpdateSchema :: "offer_update \<Rightarrow> bool" where
  "OfferUpdateSchema p \<longleftrightarrow>
     opt_ok (\<lambda>s. s \<noteq> []) (ou_title p) \<and> opt_ok (\<lambda>s. s \<noteq> []) (ou_description p) \<and>
     opt_ok (\<lambda>x. 0 \<le> x) (ou_price p)"

definition offer_no_keys :: "offer_update \<Rightarrow> bool" where
  "offer_no_keys p \<longleftrightarrow> ou_title p = None \<and> ou_description p = None \<and> ou_price p = None"

definition offers_post :: "offer \<Rightarrow> offer table \<Rightarrow> (int \<times> offer) response \<times> offer table" where
  "offers_post p t =
     (if \<not> OfferCreateSchema p then (SchemaViolation, t)
      else
        (case pg_numeric_10_2 (o_price p) of
           None \<Rightarrow> (JsonError 500 ''Failed to create offer'', t)
         | Some price \<Rightarrow>
             if \<not> (varchar255 (o_title p) \<and> varchar255 (o_description p)) then
               (JsonError 500 ''Failed to create offer'', t)
             else
               (let (result, t') =
                      insert_row \<lparr>o_title = as_varchar255 (o_title p),
                                   o_description = as_varchar255 (o_description p), o_price = price\<rparr> t
                in (JsonMessage 201 ''Offer created successfully'' result, t'))))"

definition offers_patch ::
  "jsnum \<Rightarrow> offer_update \<Rightarrow> offer table \<Rightarrow> (int \<times> offer) response \<times> offer table" where
  "offers_patch raw p t =
     (case id_param raw of
        None \<Rightarrow> (SchemaViolation, t)
      | Some idn \<Rightarrow>
          if \<not> OfferUpdateSchema p then (SchemaViolation, t)
          else if offer_no_keys p then
            (JsonError 400 ''At least one field is required for update'', t)
          else
            (case (pg_int4 idn, map_option pg_numeric_10_2 (ou_price p)) of
               (None, price) \<Rightarrow> (JsonError 500 ''Failed to update offer'', t)
             | (Some i, Some None) \<Rightarrow> (JsonError 500 ''Failed to update offer'', t)
             | (Some i, price) \<Rightarrow>
                 if \<not> (opt_ok varchar255 (ou_title p) \<and> opt_ok varchar255 (ou_description p)) then
                   (JsonError 500 ''Failed to update offer'', t)
                 else
                   (case update_rows
                           (\<lambda>f. f\<lparr>o_title := set_opt (map_option as_varchar255 (ou_title p)) (o_title f),
                                   o_description :=
                                     set_opt (map_option as_varchar255 (ou_description p))
                                       (o_description f),
                                   o_price := set_opt (map_option the price) (o_price f)\<rparr>) i t of
                      ([], t') \<Rightarrow> (JsonError 404 ''Offer not found'', t')
                    | (x # xs, t') \<Rightarrow> (JsonMessage 200 ''Offer updated successfully'' x, t'))))"

definition offers_delete :: "offer table \<Rightarrow> jsnum \<Rightarrow> (int \<times> offer) response \<times> offer table" where
  "offers_delete =
     delete_route (Some ''Failed to delete offer'') ''Offer not found'' ''Offer deleted successfully''"

definition offers_get_by_id :: "offer table \<Rightarrow> jsnum \<Rightarrow> (int \<times> offer) response" where
  "offers_get_by_id = get_by_id_route (Some ''Failed to fetch offer'') ''Offer not found''"

section \<open>Contact mailer (\<open>routes/email.ts\<close>, \<open>utils/email.ts\<close>)\<close>

record email_data =
  firstname :: string
  lastname :: string
  email :: string
  message :: string

record email_options =
  mail_from :: string
  mail_to :: string
  mail_subject :: string
  mail_text :: string
  mail_html :: string

text \<open>
  What \<open>transporter.sendMail\<close> does with a message: it resolves, or it throws an
  \<open>Error\<close> with a message, or it throws something else.
\<close>

datatype send_result = Sent | ThrewError string | ThrewOther

text \<open>
  The collaborators of the route: \<open>EMAIL_TO\<close> of the validated environment, the
  \<open>z.email()\<close> check of \<open>EmailSchema\<close>, the rendering of the static HTML template
  (\<open>generateEmailTemplate from subject message\<close>) and the SMTP transport.
\<close>

record mail_env =
  EMAIL_TO :: string
  is_email :: "string \<Rightarrow> bool"
  generateEmailTemplate :: "string \<Rightarrow> string \<Rightarrow> string \<Rightarrow> string"
  sendMail :: "email_options \<Rightarrow> send_result"

definition EmailSendSchema :: "mail_env \<Rightarrow> email_data \<Rightarrow> bool" where
  "EmailSendSchema e d \<longleftrightarrow>
     firstname d \<noteq> [] \<and> lastname d \<noteq> [] \<and> is_email e (email d) \<and> message d \<noteq> []"

text \<open>
  The route returns its response and the messages it handed to \<open>sendMail\<close>, in order.
\<close>

definition email_post :: "mail_env \<Rightarrow> email_data \<Rightarrow> unit response \<times> email_options list" where
  "email_post e emailData =
     (if \<not> EmailSendSchema e emailData then (SchemaViolation, [])
      else
        (let subject = ''New Contact Form Message from '' @ firstname emailData @ '' '' @ lastname emailData;
             htmlContent =
               generateEmailTemplate e
                 (firstname emailData @ '' '' @ lastname emailData @ '' <'' @ email emailData @ ''>'')
                 subject (message emailData);
             options = \<lparr>mail_from = email emailData, mail_to = EMAIL_TO e, mail_subject = subject,
                        mail_text = message emailData, mail_html = htmlContent\<rparr>
         in case sendMail e options of
              Sent \<Rightarrow> (JsonMessage 200 ''Email sent successfully'' (), [options])
            | ThrewError msg \<Rightarrow> (JsonError 500 (''Failed to send email: '' @ msg), [options])
            | ThrewOther \<Rightarrow> (JsonError 500 ''Failed to send email'', [options])))"

section \<open>Sample inputs for the entity and mail routes\<close>

definition empty_carousel :: carousel_table where
  "empty_carousel = \<lparr>rows = [], next_id = 1, next_index = 1\<rparr>"

definition demo_carousel :: carousel_table where
  "demo_carousel =
     \<lparr>rows = [(1, \<lparr>ci_filename = ''c.jpg'', ci_row = 1, ci_index = 3\<rparr>),
               (2, \<lparr>ci_filename = ''b.jpg'', ci_row = 2, ci_index = 2\<rparr>),
               (3, \<lparr>ci_filename = ''a.jpg'', ci_row = 1, ci_index = 1\<rparr>)],
       next_id = 4, next_index = 4\<rparr>"

text \<open>A Blob Store directory in which no referenced path exists.\<close>

definition no_files :: "string \<Rightarrow> bool" where
  "no_files name = False"

definition demo_mail_env :: mail_env where
  "demo_mail_env =
     \<lparr>EMAIL_TO = ''office@example.com'', is_email = (\<lambda>s. str_includes s ''@''),
      generateEmailTemplate = (\<lambda>sender subject body. body), sendMail = (\<lambda>options. Sent)\<rparr>"

definition demo_attorneys :: "attorney table" where
  "demo_attorneys =
     \<lparr>rows = [(1, \<lparr>a_name = ''Ada'', a_designation = ''Partner'', a_image = ''ada.jpg''\<rparr>)],
       next_id = 2\<rparr>"

definition demo_offers :: "offer table" where
  "demo_offers =
     \<lparr>rows = [(1, \<lparr>o_title = ''Audit'', o_description = ''Yearly audit'', o_price = 10\<rparr>)],
       next_id = 2\<rparr>"

section \<open>Properties of the file resource handler\<close>

subsection \<open>Auxiliary facts\<close>

lemma str_includes_prefix: "prefix n s \<Longrightarrow> str_includes s n"
  by (cases s) auto

lemma str_includes_append: "str_includes (a @ n @ b) n"
  by (induction a) (simp_all add: str_includes_prefix)

lemma decimal_demo: "decimal 1700000000000 = ''1700000000000''"
  by (simp add: decimal.simps digit_char_def)

lemma ext_photo: "toLowerCase (extname ''photo.png'') = ''.png''"
  by code_simp

lemma ext_stored: "toLowerCase (extname ''1700000000000-k3x9q2ab.png'') = ''.png''"
  by code_simp

lemma no_guard_stored:
  "\<not> str_includes ''1700000000000-k3x9q2ab.png'' ''..''"
  "\<not> str_includes ''1700000000000-k3x9q2ab.png'' ''/''"
  "\<not> str_includes ''1700000000000-k3x9q2ab.png'' [CHR 0x5C]"
  by simp_all

lemma not_video_includes:
  "\<not> str_includes ''video.mp4'' ''..''"
  "\<not> str_includes ''video.mp4'' ''/''"
  "\<not> str_includes ''video.mp4'' [CHR 0x5C]"
  by simp_all

lemma validate_photo_png: "validate_entry photo_png = None"
  by (simp add: validate_entry_def fsize_def photo_png_def)


lemma name_photo_png:
  "generateSanitizedFilename 1700000000000 ''k3x9q2ab'' ''photo.png'' = ''1700000000000-k3x9q2ab.png''"
  by (simp add: generateSanitizedFilename_def decimal_demo ext_photo)

lemma process_photo_png:
  "process_files demo_env 0 Map.empty [photo_png] [] =
     (Uploaded 201 ''Files uploaded and processed successfully''
        [\<lparr>pname = ''1700000000000-k3x9q2ab.png'', psize = 11, ptype = ''image/jpeg''\<rparr>],
      [''1700000000000-k3x9q2ab.png'' \<mapsto> ''JPEGPNGDATA''])"
  using validate_photo_png name_photo_png
  by (simp add: photo_png_def demo_env_def Let_def)




subsection \<open>Re-encoded images and the served content type\<close>

text \<open>
  C1 (evaluation at the failing input). A file named \<open>photo.png\<close> and declared
  \<open>image/png\<close> is re-encoded to JPEG and reported by the upload as \<open>image/jpeg\<close>;
  it is stored under \<open>1700000000000-k3x9q2ab.png\<close>, which keeps the original
  extension, and serving that stored name answers with \<open>Content-Type: image/png\<close>,
  not \<open>image/jpeg\<close>.
\<close>

theorem png_upload_served_as_png:
  "files_post demo_env Map.empty [(''file'', Single (FilePart photo_png))] =
     (Uploaded 201 ''Files uploaded and processed successfully''
        [\<lparr>pname = ''1700000000000-k3x9q2ab.png'', psize = 11, ptype = ''image/jpeg''\<rparr>],
      [''1700000000000-k3x9q2ab.png'' \<mapsto> ''JPEGPNGDATA''])
   \<and> fst (files_get [''1700000000000-k3x9q2ab.png'' \<mapsto> ''JPEGPNGDATA''] ''1700000000000-k3x9q2ab.png'')
       = Body ''image/png'' ''JPEGPNGDATA''"
proof
  show "files_post demo_env Map.empty [(''file'', Single (FilePart photo_png))] =
     (Uploaded 201 ''Files uploaded and processed successfully''
        [\<lparr>pname = ''1700000000000-k3x9q2ab.png'', psize = 11, ptype = ''image/jpeg''\<rparr>],
      [''1700000000000-k3x9q2ab.png'' \<mapsto> ''JPEGPNGDATA''])"
    using process_photo_png by (simp add: files_post_def collect_files_def)
  show "fst (files_get [''1700000000000-k3x9q2ab.png'' \<mapsto> ''JPEGPNGDATA''] ''1700000000000-k3x9q2ab.png'')
       = Body ''image/png'' ''JPEGPNGDATA''"
    unfolding files_get_def using no_guard_stored
    by (simp add: ext_stored contentType_of_def)
qed

subsection \<open>Validation and writes in a multi-entry upload\<close>









subsection \<open>The directory-traversal guard\<close>

text \<open>
  C4. A requested name that contains \<open>..\<close>, a slash or a backslash is answered with
  400 and the handler makes no file-system call. The fixed name \<open>video.mp4\<close> is
  handled before the guard and only ever touches the constant video path.
\<close>

theorem files_get_traversal_guard:
  "(str_includes filename ''..'' \<or> str_includes filename ''/'' \<or> str_includes filename [CHR 0x5C]
      \<longrightarrow> files_get store filename = (ServeError 400 ''Invalid filename'', []))
   \<and> files_get store ''video.mp4'' =
       (case store ''video.mp4'' of
          None \<Rightarrow> (ServeError 404 ''Video file not found'', [Access ''video.mp4''])
        | Some b \<Rightarrow> (Body ''video/mp4'' b, [Access ''video.mp4'', ReadFile ''video.mp4'']))"
proof (intro conjI impI)
  assume bad: "str_includes filename ''..'' \<or> str_includes filename ''/'' \<or> str_includes filename [CHR 0x5C]"
  with not_video_includes have "filename \<noteq> ''video.mp4''" by auto
  with bad show "files_get store filename = (ServeError 400 ''Invalid filename'', [])"
    unfolding files_get_def by simp
next
  show "files_get store ''video.mp4'' =
       (case store ''video.mp4'' of
          None \<Rightarrow> (ServeError 404 ''Video file not found'', [Access ''video.mp4''])
        | Some b \<Rightarrow> (Body ''video/mp4'' b, [Access ''video.mp4'', ReadFile ''video.mp4'']))"
    unfolding files_get_def videoName_def by simp
qed

theorem files_get_traversal_guard_witness:
  "str_includes ''../secret'' ''..'' \<and>
   files_get Map.empty ''../secret'' = (ServeError 400 ''Invalid filename'', [])"
  using files_get_traversal_guard [of "''../secret''" Map.empty] by simp

subsection \<open>An upload without file entries\<close>

text \<open>
  C10. When the parsed body holds no \<open>File\<close>, the upload is answered with 201 and
  an empty list of processed files, and the Blob Store is left as it was.
\<close>

theorem upload_no_files:
  "collect_files formData = [] \<Longrightarrow>
   files_post e store formData =
     (Uploaded 201 ''Files uploaded and processed successfully'' [], store)"
  by (simp add: files_post_def)

theorem upload_no_files_witness:
  "collect_files [(''note'', Single (TextPart ''hello''))] = [] \<and>
   files_post demo_env Map.empty [(''note'', Single (TextPart ''hello''))] =
     (Uploaded 201 ''Files uploaded and processed successfully'' [], Map.empty)"
  using upload_no_files [of "[(''note'', Single (TextPart ''hello''))]" demo_env Map.empty]
  by (simp add: collect_files_def)

section \<open>Properties of the entity resource handlers\<close>

subsection \<open>Auxiliary facts\<close>

lemma int4_below_MAX_VALUE: "(2147483647 :: rat) \<le> MAX_VALUE"
  by (simp add: MAX_VALUE_def)

lemma coerce_number_min_small:
  "m \<le> x \<Longrightarrow> 0 \<le> x \<Longrightarrow> x \<le> 2147483647 \<Longrightarrow> coerce_number_min m (Num x) = Some x"
  using int4_below_MAX_VALUE by (simp add: coerce_number_min_def)

lemma id_param_None_iff:
  "id_param raw = None \<longleftrightarrow>
     raw = NaN \<or> raw = PosInfinity \<or> raw = NegInfinity \<or>
     (\<exists>x. raw = Num x \<and> (x < 1 \<or> MAX_VALUE < x))"
proof -
  have "0 \<le> MAX_VALUE" by (simp add: MAX_VALUE_def)
  then show ?thesis
    by (cases raw) (auto simp: id_param_def coerce_number_min_def)
qed

lemma pg_int4_of_int:
  "- 2147483648 \<le> r \<Longrightarrow> r \<le> 2147483647 \<Longrightarrow> pg_int4 (of_int r) = Some r"
  by (simp add: pg_int4_def)

lemma first_missing_Some:
  assumes "f \<in> set images" and "\<not> access f"
  shows "\<exists>g. first_missing access images = Some g \<and> g \<in> set images \<and> \<not> access g"
proof (cases "first_missing access images")
  case None
  with assms show ?thesis by (auto simp: first_missing_def find_None_iff)
next
  case (Some g)
  then show ?thesis by (auto simp: first_missing_def find_Some_iff)
qed

subsection \<open>Blob references are checked before the store write\<close>

text \<open>
  C2 (as stated, refuted). Creating a carousel image whose file is absent is answered
  with 404 and leaves the table alone, but the message is the fixed text
  \<open>File not found\<close>: it does not name the missing file \<open>hero.jpg\<close>.
\<close>

theorem missing_file_message_counterexample:
  "\<not> no_files ''hero.jpg''
   \<and> carouselImages_post no_files \<lparr>cc_filename = ''hero.jpg'', cc_row = 1\<rparr> empty_carousel =
       (JsonError 404 ''File not found'', empty_carousel)
   \<and> \<not> str_includes ''File not found'' ''hero.jpg''"
  by (simp add: no_files_def carouselImages_post_def CarouselImageCreateSchema_def)

text \<open>
  C2 (amended). For carousel images, works, attorneys, blogs and promotional offers, a
  Create whose blob reference names an absent file, and an Update (with a valid id)
  whose payload carries such a reference, is answered with 404 and the table is left
  as it was. The message is \<open>File not found\<close> for the kinds with one image; for
  promotional offers it is \<open>File not found: \<close> followed by the first absent name of
  the image list.
\<close>

theorem missing_blob_is_not_found:
  assumes "\<not> access f"
  shows
   "(CarouselImageCreateSchema pc \<and> cc_filename pc = f \<longrightarrow>
       carouselImages_post access pc tc = (JsonError 404 ''File not found'', tc))
  \<and> (id_param raw \<noteq> None \<and> CarouselImageUpdateSchema qc \<and> cu_filename qc = Some f \<longrightarrow>
       carouselImages_patch access raw qc tc = (JsonError 404 ''File not found'', tc))
  \<and> (WorkCreateSchema pw \<and> w_image pw = f \<longrightarrow>
       works_post access pw tw = (JsonError 404 ''File not found'', tw))
  \<and> (id_param raw \<noteq> None \<and> WorkUpdateSchema qw \<and> wu_image qw = Some f \<longrightarrow>
       works_patch access raw qw tw = (JsonError 404 ''File not found'', tw))
  \<and> (AttorneyCreateSchema pa \<and> a_image pa = f \<longrightarrow>
       attorneys_post access pa ta = (JsonError 404 ''File not found'', ta))
  \<and> (id_param raw \<noteq> None \<and> AttorneyUpdateSchema qa \<noteq> None \<and> au_image qa = Some f \<longrightarrow>
       attorneys_patch access raw qa ta = (JsonError 404 ''File not found'', ta))
  \<and> (BlogCreateSchema pb \<and> b_image pb = f \<longrightarrow>
       blogs_post access clock pb tb = (JsonError 404 ''File not found'', tb))
  \<and> (id_param raw \<noteq> None \<and> BlogUpdateSchema qb \<and> bu_image qb = Some f \<longrightarrow>
       blogs_patch access clock raw qb tb = (JsonError 404 ''File not found'', tb))
  \<and> (PromotionalOfferCreateSchema pp \<and> f \<in> set (po_images pp) \<longrightarrow>
       (\<exists>g. first_missing access (po_images pp) = Some g \<and> \<not> access g \<and>
            promotionalOffers_post access pp tp = (JsonError 404 (''File not found: '' @ g), tp) \<and>
            str_includes (''File not found: '' @ g) g))
  \<and> (id_param raw \<noteq> None \<and> PromotionalOfferUpdateSchema qp \<and> pu_images qp = Some images \<and>
      f \<in> set images \<longrightarrow>
       (\<exists>g. first_missing access images = Some g \<and> \<not> access g \<and>
            promotionalOffers_patch access raw qp tp = (JsonError 404 (''File not found: '' @ g), tp) \<and>
            str_includes (''File not found: '' @ g) g))"
proof -
  have inc: "str_includes (''File not found: '' @ g) g" for g
    using str_includes_append [of "''File not found: ''" g "[]"] by simp
  have c1: "CarouselImageCreateSchema pc \<and> cc_filename pc = f \<longrightarrow>
       carouselImages_post access pc tc = (JsonError 404 ''File not found'', tc)"
    using assms by (simp add: carouselImages_post_def)
  have u1: "id_param raw \<noteq> None \<and> CarouselImageUpdateSchema qc \<and> cu_filename qc = Some f \<longrightarrow>
       carouselImages_patch access raw qc tc = (JsonError 404 ''File not found'', tc)"
    using assms
    by (auto simp: carouselImages_patch_def CarouselImageUpdateSchema_def opt_ok_def truthy_def)
  have c2: "WorkCreateSchema pw \<and> w_image pw = f \<longrightarrow>
       works_post access pw tw = (JsonError 404 ''File not found'', tw)"
    using assms by (simp add: works_post_def)
  have u2: "id_param raw \<noteq> None \<and> WorkUpdateSchema qw \<and> wu_image qw = Some f \<longrightarrow>
       works_patch access raw qw tw = (JsonError 404 ''File not found'', tw)"
    using assms by (auto simp: works_patch_def WorkUpdateSchema_def opt_ok_def truthy_def)
  have c3: "AttorneyCreateSchema pa \<and> a_image pa = f \<longrightarrow>
       attorneys_post access pa ta = (JsonError 404 ''File not found'', ta)"
    using assms by (simp add: attorneys_post_def)
  have u3: "id_param raw \<noteq> None \<and> AttorneyUpdateSchema qa \<noteq> None \<and> au_image qa = Some f \<longrightarrow>
       attorneys_patch access raw qa ta = (JsonError 404 ''File not found'', ta)"
    using assms
    by (auto simp: attorneys_patch_def AttorneyUpdateSchema_def attorney_no_keys_def opt_ok_def
          truthy_def split: if_splits)
  have c4: "BlogCreateSchema pb \<and> b_image pb = f \<longrightarrow>
       blogs_post access clock pb tb = (JsonError 404 ''File not found'', tb)"
    using assms by (simp add: blogs_post_def)
  have u4: "id_param raw \<noteq> None \<and> BlogUpdateSchema qb \<and> bu_image qb = Some f \<longrightarrow>
       blogs_patch access clock raw qb tb = (JsonError 404 ''File not found'', tb)"
    using assms
    by (auto simp: blogs_patch_def BlogUpdateSchema_def blog_no_keys_def opt_ok_def truthy_def)
  have c5: "PromotionalOfferCreateSchema pp \<and> f \<in> set (po_images pp) \<longrightarrow>
       (\<exists>g. first_missing access (po_images pp) = Some g \<and> \<not> access g \<and>
            promotionalOffers_post access pp tp = (JsonError 404 (''File not found: '' @ g), tp) \<and>
            str_includes (''File not found: '' @ g) g)"
  proof (intro impI, elim conjE)
    assume s: "PromotionalOfferCreateSchema pp" and m: "f \<in> set (po_images pp)"
    obtain g where g: "first_missing access (po_images pp) = Some g" "\<not> access g"
      using first_missing_Some [of f _ access] m assms by blast
    then show "\<exists>g. first_missing access (po_images pp) = Some g \<and> \<not> access g \<and>
            promotionalOffers_post access pp tp = (JsonError 404 (''File not found: '' @ g), tp) \<and>
            str_includes (''File not found: '' @ g) g"
      using s inc by (simp add: promotionalOffers_post_def)
  qed
  have u5: "id_param raw \<noteq> None \<and> PromotionalOfferUpdateSchema qp \<and> pu_images qp = Some images \<and>
      f \<in> set images \<longrightarrow>
       (\<exists>g. first_missing access images = Some g \<and> \<not> access g \<and>
            promotionalOffers_patch access raw qp tp = (JsonError 404 (''File not found: '' @ g), tp) \<and>
            str_includes (''File not found: '' @ g) g)"
  proof (intro impI, elim conjE)
    assume i: "id_param raw \<noteq> None" and s: "PromotionalOfferUpdateSchema qp"
      and p: "pu_images qp = Some images" and m: "f \<in> set images"
    obtain g where g: "first_missing access images = Some g" "\<not> access g"
      using first_missing_Some [of f _ access] m assms by blast
    then show "\<exists>g. first_missing access images = Some g \<and> \<not> access g \<and>
            promotionalOffers_patch access raw qp tp = (JsonError 404 (''File not found: '' @ g), tp) \<and>
            str_includes (''File not found: '' @ g) g"
      using i s p inc
      by (auto simp: promotionalOffers_patch_def promotional_offer_no_keys_def)
  qed
  from c1 u1 c2 u2 c3 u3 c4 u4 c5 u5 show ?thesis by (intro conjI)
qed

theorem missing_blob_is_not_found_witness:
  "\<not> no_files ''logo.png''
   \<and> CarouselImageCreateSchema \<lparr>cc_filename = ''logo.png'', cc_row = 2\<rparr>
   \<and> carouselImages_post no_files \<lparr>cc_filename = ''logo.png'', cc_row = 2\<rparr> demo_carousel =
       (JsonError 404 ''File not found'', demo_carousel)
   \<and> id_param (Num 3) \<noteq> None
   \<and> CarouselImageUpdateSchema \<lparr>cu_filename = Some ''logo.png'', cu_row = None\<rparr>
   \<and> carouselImages_patch no_files (Num 3) \<lparr>cu_filename = Some ''logo.png'', cu_row = None\<rparr>
        demo_carousel = (JsonError 404 ''File not found'', demo_carousel)
   \<and> PromotionalOfferCreateSchema
        \<lparr>po_title = ''Sale'', po_description = ''Half price'', po_images = [''logo.png''], po_link = None\<rparr>
   \<and> promotionalOffers_post no_files
        \<lparr>po_title = ''Sale'', po_description = ''Half price'', po_images = [''logo.png''], po_link = None\<rparr>
        \<lparr>rows = [], next_id = 1\<rparr> =
       (JsonError 404 ''File not found: logo.png'', \<lparr>rows = [], next_id = 1\<rparr>)"
proof -
  have a: "\<not> no_files ''logo.png''" by (simp add: no_files_def)
  have s1: "CarouselImageCreateSchema \<lparr>cc_filename = ''logo.png'', cc_row = 2\<rparr>"
    by (simp add: CarouselImageCreateSchema_def)
  have i: "id_param (Num 3) \<noteq> None" by (simp add: id_param_def coerce_number_min_small)
  have s2: "CarouselImageUpdateSchema \<lparr>cu_filename = Some ''logo.png'', cu_row = None\<rparr>"
    by (simp add: CarouselImageUpdateSchema_def opt_ok_def)
  have s3: "PromotionalOfferCreateSchema
        \<lparr>po_title = ''Sale'', po_description = ''Half price'', po_images = [''logo.png''], po_link = None\<rparr>"
    by (simp add: PromotionalOfferCreateSchema_def)
  have m: "first_missing no_files [''logo.png''] = Some ''logo.png''"
    by (simp add: first_missing_def no_files_def)
  show ?thesis
    using missing_blob_is_not_found [where access = no_files and f = "''logo.png''"
          and pc = "\<lparr>cc_filename = ''logo.png'', cc_row = 2\<rparr>" and tc = demo_carousel
          and raw = "Num 3" and qc = "\<lparr>cu_filename = Some ''logo.png'', cu_row = None\<rparr>"
          and pp = "\<lparr>po_title = ''Sale'', po_description = ''Half price'',
                      po_images = [''logo.png''], po_link = None\<rparr>"
          and tp = "\<lparr>rows = [], next_id = 1\<rparr>"]
      a s1 i s2 s3 m
    by simp
qed

subsection \<open>Carousel images of one row\<close>

text \<open>
  C5. For a row number \<open>r\<close> (a positive 32-bit integer) and any content of the table,
  in any store order, \<open>GET /carousel-images/row/r\<close> returns exactly the records whose
  \<open>row\<close> is \<open>r\<close>, each as often as it is stored, in ascending order of \<open>index\<close>.
\<close>

theorem carousel_by_row_sorted:
  assumes "1 \<le> r" and "r \<le> 2147483647"
  shows "\<exists>xs. carouselImages_get_by_row t (Num (of_int r)) = JsonData xs
           \<and> mset xs = filter_mset (\<lambda>x. ci_row (snd x) = r) (mset (rows t))
           \<and> sorted (map (\<lambda>x. ci_index (snd x)) xs)"
proof -
  have "coerce_number_min 1 (Num (of_int r)) = Some (of_int r)"
    using assms by (intro coerce_number_min_small) auto
  moreover have "pg_int4 (of_int r) = Some r"
    using assms by (intro pg_int4_of_int) auto
  ultimately have "carouselImages_get_by_row t (Num (of_int r)) =
      JsonData (sort_key (\<lambda>x. ci_index (snd x)) (filter (\<lambda>x. ci_row (snd x) = r) (rows t)))"
    by (simp add: carouselImages_get_by_row_def)
  then show ?thesis by simp
qed

theorem carousel_by_row_sorted_witness:
  "(1::int) \<le> 1 \<and> (1::int) \<le> 2147483647 \<and>
   carouselImages_get_by_row demo_carousel (Num (of_int 1)) =
     JsonData [(3, \<lparr>ci_filename = ''a.jpg'', ci_row = 1, ci_index = 1\<rparr>),
               (1, \<lparr>ci_filename = ''c.jpg'', ci_row = 1, ci_index = 3\<rparr>)]"
proof -
  have "carouselImages_get_by_row demo_carousel (Num (of_int 1)) =
     JsonData [(3, \<lparr>ci_filename = ''a.jpg'', ci_row = 1, ci_index = 1\<rparr>),
               (1, \<lparr>ci_filename = ''c.jpg'', ci_row = 1, ci_index = 3\<rparr>)]"
    by (simp add: carouselImages_get_by_row_def coerce_number_min_small pg_int4_def demo_carousel_def)
  then show ?thesis
    using carousel_by_row_sorted [of 1 demo_carousel] by simp
qed

subsection \<open>Updates without fields\<close>

text \<open>
  For six of the seven kinds (all but attorneys), every id and every table, an Update
  whose validated payload has no field is answered with a 400 client error, the schema
  violation of the id parameter when the id is malformed and the handler's "at least
  one field" error otherwise, and the table is returned unchanged.
\<close>

lemma update_without_fields_other_kinds:
  "carouselImages_patch access raw \<lparr>cu_filename = None, cu_row = None\<rparr> tc =
     (if id_param raw = None then SchemaViolation
      else JsonError 400 ''At least one field (filename or row) is required'', tc)
   \<and> works_patch access raw \<lparr>wu_title = None, wu_image = None\<rparr> tw =
     (if id_param raw = None then SchemaViolation
      else JsonError 400 ''At least one field (title or image) is required'', tw)
   \<and> testimonials_patch raw
        \<lparr>tu_name = None, tu_designation = None, tu_company = None, tu_image = None, tu_content = None\<rparr> tt =
     (if id_param raw = None then SchemaViolation
      else JsonError 400 ''At least one field is required for update'', tt)
   \<and> blogs_patch access clock raw
        \<lparr>bu_title = None, bu_author = None, bu_content = None, bu_image = None\<rparr> tb =
     (if id_param raw = None then SchemaViolation
      else JsonError 400 ''At least one field is required for update'', tb)
   \<and> promotionalOffers_patch access raw
        \<lparr>pu_title = None, pu_description = None, pu_images = None, pu_link = None\<rparr> tp =
     (if id_param raw = None then SchemaViolation
      else JsonError 400 ''At least one field is required for update'', tp)
   \<and> offers_patch raw \<lparr>ou_title = None, ou_description = None, ou_price = None\<rparr> to =
     (if id_param raw = None then SchemaViolation
      else JsonError 400 ''At least one field is required for update'', to)"
  by (simp add: carouselImages_patch_def works_patch_def testimonials_patch_def
        blogs_patch_def promotionalOffers_patch_def offers_patch_def
        CarouselImageUpdateSchema_def WorkUpdateSchema_def TestimonialUpdateSchema_def
        BlogUpdateSchema_def PromotionalOfferUpdateSchema_def
        OfferUpdateSchema_def opt_ok_def testimonial_no_keys_def
        blog_no_keys_def promotional_offer_no_keys_def offer_no_keys_def
      split: option.splits)

text \<open>
  C8 (evaluation at the failing input). \<open>PATCH /attorneys/1\<close> with the empty body
  \<open>{}\<close>: the update schema fills in \<open>designation: "Attorney"\<close>, so the handler's
  check for an empty payload does not fire. On a table that holds attorney 1 with the
  designation \<open>Partner\<close> the request is answered with 200 and the stored designation
  is overwritten with \<open>Attorney\<close>; on an empty table it is answered with the 404
  not-found error. In neither case is the answer the 400 client error.
\<close>

theorem attorney_empty_patch_is_not_rejected:
  "AttorneyUpdateSchema \<lparr>au_name = None, au_designation = None, au_image = None\<rparr> =
     Some \<lparr>au_name = None, au_designation = Some ''Attorney'', au_image = None\<rparr>
   \<and> attorneys_patch no_files (Num 1) \<lparr>au_name = None, au_designation = None, au_image = None\<rparr>
        demo_attorneys =
       (JsonMessage 200 ''Attorney updated successfully''
          (1, \<lparr>a_name = ''Ada'', a_designation = ''Attorney'', a_image = ''ada.jpg''\<rparr>),
        \<lparr>rows = [(1, \<lparr>a_name = ''Ada'', a_designation = ''Attorney'', a_image = ''ada.jpg''\<rparr>)],
          next_id = 2\<rparr>)
   \<and> attorneys_patch no_files (Num 1) \<lparr>au_name = None, au_designation = None, au_image = None\<rparr>
        \<lparr>rows = [], next_id = 1\<rparr> =
       (JsonError 404 ''Attorney not found'', \<lparr>rows = [], next_id = 1\<rparr>)"
proof -
  have s: "AttorneyUpdateSchema \<lparr>au_name = None, au_designation = None, au_image = None\<rparr> =
     Some \<lparr>au_name = None, au_designation = Some ''Attorney'', au_image = None\<rparr>"
    by (simp add: AttorneyUpdateSchema_def opt_ok_def)
  have i: "id_param (Num 1) = Some 1"
    by (simp add: id_param_def coerce_number_min_small)
  have g: "pg_int4 1 = Some 1"
    using pg_int4_of_int [of 1] by simp
  have v: "varchar255 ''Attorney''"
    by (simp add: varchar255_def)
  have a: "as_varchar255 ''Attorney'' = ''Attorney''"
    by (simp add: as_varchar255_def)
  have "attorneys_patch no_files (Num 1) \<lparr>au_name = None, au_designation = None, au_image = None\<rparr>
        demo_attorneys =
       (JsonMessage 200 ''Attorney updated successfully''
          (1, \<lparr>a_name = ''Ada'', a_designation = ''Attorney'', a_image = ''ada.jpg''\<rparr>),
        \<lparr>rows = [(1, \<lparr>a_name = ''Ada'', a_designation = ''Attorney'', a_image = ''ada.jpg''\<rparr>)],
          next_id = 2\<rparr>)"
    by (simp add: attorneys_patch_def s i g v a attorney_no_keys_def truthy_def opt_ok_def
          update_rows_def set_opt_def demo_attorneys_def Let_def)
  moreover have "attorneys_patch no_files (Num 1)
        \<lparr>au_name = None, au_designation = None, au_image = None\<rparr> \<lparr>rows = [], next_id = 1\<rparr> =
       (JsonError 404 ''Attorney not found'', \<lparr>rows = [], next_id = 1\<rparr>)"
    by (simp add: attorneys_patch_def s i g v a attorney_no_keys_def truthy_def opt_ok_def
          update_rows_def set_opt_def Let_def)
  ultimately show ?thesis using s by simp
qed

subsection \<open>The id parameter\<close>

text \<open>
  C9 (as stated, refuted). The id \<open>1.5\<close> is not an integer, yet the parameter schema
  accepts it, and the Get handler is not answered by the schema violation: the request
  goes on to the store operation.
\<close>

theorem non_integer_id_passes_schema_counterexample:
  "(3 / 2 :: rat) \<notin> \<int>
   \<and> id_param (Num (3 / 2)) = Some (3 / 2)
   \<and> carouselImages_get_by_id empty_carousel (Num (3 / 2)) \<noteq> SchemaViolation"
proof -
  have "(3 / 2 :: rat) \<notin> \<int>"
  proof
    assume "(3 / 2 :: rat) \<in> \<int>"
    then obtain k :: int where "(3 / 2 :: rat) = of_int k" by (auto elim: Ints_cases)
    then have "(3::rat) = of_int (2 * k)" by simp
    then have "(3::int) = 2 * k" using of_int_eq_iff [where ?'a = rat] by (metis of_int_numeral)
    then show False by presburger
  qed
  moreover have i: "id_param (Num (3 / 2)) = Some (3 / 2)"
    by (simp add: id_param_def coerce_number_min_small)
  moreover have "carouselImages_get_by_id empty_carousel (Num (3 / 2)) = Uncaught"
  proof -
    have f: "\<lfloor>3 / 2 :: rat\<rfloor> = 1" by (simp add: floor_eq_iff)
    have "pg_int4 (3 / 2) = None" unfolding pg_int4_def f by simp
    then show ?thesis
      by (simp add: carouselImages_get_by_id_def get_by_id_route_def i store_failure_def)
  qed
  ultimately show ?thesis by simp
qed

text \<open>
  C9 (amended). The id is rejected by schema validation exactly when it is not a
  number, is infinite (a numeric text beyond the largest finite number, such as
  \<open>1e309\<close>) or is a number below 1 (so every non-numeric, zero or negative id is
  rejected); a finite id of 1 or more is accepted whether or not it is an integer. A
  rejected id is answered with the 400 schema violation by Get, Update and Delete of
  every kind, before any store operation: the table is returned unchanged.
\<close>

theorem id_schema_gate:
  "(id_param raw = None \<longleftrightarrow>
      raw = NaN \<or> raw = PosInfinity \<or> raw = NegInfinity \<or>
      (\<exists>x. raw = Num x \<and> (x < 1 \<or> MAX_VALUE < x)))
   \<and> (\<forall>x. 1 \<le> x \<and> x \<le> MAX_VALUE \<longrightarrow> id_param (Num x) = Some x)
   \<and> (id_param raw = None \<longrightarrow>
        carouselImages_get_by_id tc raw = SchemaViolation
      \<and> carouselImages_patch access raw qc tc = (SchemaViolation, tc)
      \<and> carouselImages_delete tc raw = (SchemaViolation, tc)
      \<and> works_get_by_id tw raw = SchemaViolation
      \<and> works_patch access raw qw tw = (SchemaViolation, tw)
      \<and> works_delete tw raw = (SchemaViolation, tw)
      \<and> testimonials_get_by_id tt raw = SchemaViolation
      \<and> testimonials_patch raw qt tt = (SchemaViolation, tt)
      \<and> testimonials_delete tt raw = (SchemaViolation, tt)
      \<and> attorneys_get_by_id ta raw = SchemaViolation
      \<and> attorneys_patch access raw qa ta = (SchemaViolation, ta)
      \<and> attorneys_delete ta raw = (SchemaViolation, ta)
      \<and> blogs_get_by_id tb raw = SchemaViolation
      \<and> blogs_patch access clock raw qb tb = (SchemaViolation, tb)
      \<and> blogs_delete tb raw = (SchemaViolation, tb)
      \<and> promotionalOffers_get_by_id tp raw = SchemaViolation
      \<and> promotionalOffers_patch access raw qp tp = (SchemaViolation, tp)
      \<and> promotionalOffers_delete tp raw = (SchemaViolation, tp)
      \<and> offers_get_by_id to raw = SchemaViolation
      \<and> offers_patch raw qo to = (SchemaViolation, to)
      \<and> offers_delete to raw = (SchemaViolation, to))"
proof (intro conjI impI allI)
  show "id_param raw = None \<longleftrightarrow>
      raw = NaN \<or> raw = PosInfinity \<or> raw = NegInfinity \<or>
      (\<exists>x. raw = Num x \<and> (x < 1 \<or> MAX_VALUE < x))"
    by (rule id_param_None_iff)
next
  fix x :: rat
  assume "1 \<le> x \<and> x \<le> MAX_VALUE"
  then show "id_param (Num x) = Some x"
    by (simp add: id_param_def coerce_number_min_def)
qed (simp_all add: get_by_id_route_def delete_route_def
      carouselImages_get_by_id_def carouselImages_patch_def carouselImages_delete_def
      works_get_by_id_def works_patch_def works_delete_def
      testimonials_get_by_id_def testimonials_patch_def testimonials_delete_def
      attorneys_get_by_id_def attorneys_patch_def attorneys_delete_def
      blogs_get_by_id_def blogs_patch_def blogs_delete_def
      promotionalOffers_get_by_id_def promotionalOffers_patch_def promotionalOffers_delete_def
      offers_get_by_id_def offers_patch_def offers_delete_def)

theorem id_schema_gate_witness:
  "id_param (Num 0) = None
   \<and> carouselImages_get_by_id demo_carousel (Num 0) = SchemaViolation
   \<and> carouselImages_patch no_files (Num 0) \<lparr>cu_filename = None, cu_row = Some 2\<rparr> demo_carousel =
       (SchemaViolation, demo_carousel)
   \<and> carouselImages_delete demo_carousel (Num 0) = (SchemaViolation, demo_carousel)
   \<and> id_param NaN = None
   \<and> id_param PosInfinity = None
   \<and> id_param (Num (- 3)) = None
   \<and> id_param (Num (1 / 2)) = None
   \<and> id_param (Num 7) = Some 7"
proof -
  have z: "id_param (Num 0) = None" by (simp add: id_param_def coerce_number_min_def)
  have "id_param NaN = None" "id_param PosInfinity = None" "id_param (Num (- 3)) = None"
    "id_param (Num (1 / 2)) = None"
    by (simp_all add: id_param_def coerce_number_min_def)
  moreover have "id_param (Num 7) = Some 7"
    by (simp add: id_param_def coerce_number_min_small)
  ultimately show ?thesis
    using z id_schema_gate [where raw = "Num 0" and tc = demo_carousel and access = no_files
          and qc = "\<lparr>cu_filename = None, cu_row = Some 2\<rparr>"]
    by simp
qed

subsection \<open>The price of an offer\<close>

lemma pg_numeric_10_2_cents:
  "0 \<le> k \<Longrightarrow> k < 10000000000 \<Longrightarrow> pg_numeric_10_2 (of_int k / 100) = Some (of_int k / 100)"
proof -
  assume k: "0 \<le> k" "k < 10000000000"
  have "\<lfloor>(of_int k :: rat) + 1 / 2\<rfloor> = k"
    by (simp add: floor_eq_iff)
  moreover have "(0 :: rat) \<le> of_int k / 100" using k by simp
  ultimately show ?thesis
    using k by (simp add: pg_numeric_10_2_def)
qed

lemma id_param_int4:
  "1 \<le> i \<Longrightarrow> i \<le> 2147483647 \<Longrightarrow> id_param (Num (of_int i)) = Some (of_int i)"
  unfolding id_param_def by (intro coerce_number_min_small) auto

lemma varchar255_short: "length s \<le> 255 \<Longrightarrow> varchar255 s \<and> as_varchar255 s = s"
  by (simp add: varchar255_def as_varchar255_def)

text \<open>
  C6. A price with two fraction digits, \<open>k / 100\<close> with \<open>k\<close> a whole number of
  cents that fits the \<open>numeric(10, 2)\<close> column, is stored exactly. Creating an offer
  with that price (and a title and description the columns take) returns the record
  with exactly that price, and reading the new record back returns the same record.
  Updating the price of an existing offer returns a record with exactly that price,
  and reading it back returns the same record.
\<close>

theorem offer_price_round_trip:
  assumes "0 \<le> k" and "k < 10000000000"
    and "ti \<noteq> []" and "length ti \<le> 255" and "de \<noteq> []" and "length de \<le> 255"
    and "1 \<le> next_id t" and "next_id t \<le> 2147483647" and "select_by_id t (next_id t) = []"
    and "1 \<le> i" and "i \<le> 2147483647" and "select_by_id t i \<noteq> []"
  shows
    "(\<exists>t'. offers_post \<lparr>o_title = ti, o_description = de, o_price = of_int k / 100\<rparr> t =
            (JsonMessage 201 ''Offer created successfully''
               (next_id t, \<lparr>o_title = ti, o_description = de, o_price = of_int k / 100\<rparr>), t')
          \<and> offers_get_by_id t' (Num (of_int (next_id t))) =
              JsonData (next_id t, \<lparr>o_title = ti, o_description = de, o_price = of_int k / 100\<rparr>))
   \<and> (\<exists>row t'. offers_patch (Num (of_int i))
                  \<lparr>ou_title = None, ou_description = None, ou_price = Some (of_int k / 100)\<rparr> t =
                (JsonMessage 200 ''Offer updated successfully'' (i, row), t')
              \<and> o_price row = of_int k / 100
              \<and> offers_get_by_id t' (Num (of_int i)) = JsonData (i, row))"
proof
  let ?new = "\<lparr>o_title = ti, o_description = de, o_price = of_int k / 100\<rparr>"
  let ?t' = "t\<lparr>rows := rows t @ [(next_id t, ?new)], next_id := next_id t + 1\<rparr>"
  have post: "offers_post ?new t = (JsonMessage 201 ''Offer created successfully'' (next_id t, ?new), ?t')"
    using assms(3-6) pg_numeric_10_2_cents [OF assms(1,2)] varchar255_short [of ti]
      varchar255_short [of de]
    by (simp add: offers_post_def OfferCreateSchema_def insert_row_def assms(1))
  have sel: "select_by_id ?t' (next_id t) = [(next_id t, ?new)]"
    using assms(9) by (simp add: select_by_id_def)
  have get: "offers_get_by_id ?t' (Num (of_int (next_id t))) = JsonData (next_id t, ?new)"
    using id_param_int4 [OF assms(7,8)] pg_int4_of_int [of "next_id t"] assms(7,8) sel
    by (simp add: offers_get_by_id_def get_by_id_route_def)
  show "\<exists>t'. offers_post ?new t =
            (JsonMessage 201 ''Offer created successfully'' (next_id t, ?new), t')
          \<and> offers_get_by_id t' (Num (of_int (next_id t))) = JsonData (next_id t, ?new)"
    using post get by blast
next
  let ?q = "\<lparr>ou_title = None, ou_description = None, ou_price = Some (of_int k / 100 :: rat)\<rparr>"
  let ?upd = "\<lambda>f :: offer. f\<lparr>o_price := of_int k / 100\<rparr>"
  let ?rows' = "map (\<lambda>r. if fst r = i then (fst r, ?upd (snd r)) else r) (rows t)"
  let ?t' = "t\<lparr>rows := ?rows'\<rparr>"
  obtain r rs where sel: "select_by_id t i = r # rs"
    using assms(12) by (cases "select_by_id t i") auto
  have "r \<in> set (select_by_id t i)"
    using sel by simp
  then have fr: "fst r = i"
    by (simp add: select_by_id_def)
  have filt: "filter (\<lambda>x. fst x = i) ?rows' = map (\<lambda>x. (fst x, ?upd (snd x))) (filter (\<lambda>x. fst x = i) (rows t))"
    by (induction "rows t") (auto simp: filter_map comp_def)
  have filt': "filter (\<lambda>x. fst x = i) ?rows' = (i, ?upd (snd r)) # map (\<lambda>x. (fst x, ?upd (snd x))) rs"
    using filt sel fr by (simp add: select_by_id_def)
  have upd: "update_rows
      (\<lambda>f. f\<lparr>o_title := set_opt (map_option as_varchar255 (ou_title ?q)) (o_title f),
              o_description := set_opt (map_option as_varchar255 (ou_description ?q)) (o_description f),
              o_price := set_opt (map_option the (Some (Some (of_int k / 100)))) (o_price f)\<rparr>) i t =
      ((i, ?upd (snd r)) # map (\<lambda>x. (fst x, ?upd (snd x))) rs, ?t')"
    using filt' by (simp add: update_rows_def set_opt_def Let_def)
  have patch: "offers_patch (Num (of_int i)) ?q t =
      (JsonMessage 200 ''Offer updated successfully'' (i, ?upd (snd r)), ?t')"
    using id_param_int4 [OF assms(10,11)] pg_int4_of_int [of i] assms(10,11)
      pg_numeric_10_2_cents [OF assms(1,2)] upd assms(1)
    by (simp add: offers_patch_def OfferUpdateSchema_def offer_no_keys_def opt_ok_def)
  have get: "offers_get_by_id ?t' (Num (of_int i)) = JsonData (i, ?upd (snd r))"
    using id_param_int4 [OF assms(10,11)] pg_int4_of_int [of i] assms(10,11) filt'
    by (simp add: offers_get_by_id_def get_by_id_route_def select_by_id_def)
  show "\<exists>row t'. offers_patch (Num (of_int i)) ?q t =
                (JsonMessage 200 ''Offer updated successfully'' (i, row), t')
              \<and> o_price row = of_int k / 100
              \<and> offers_get_by_id t' (Num (of_int i)) = JsonData (i, row)"
    using patch get by (intro exI [of _ "?upd (snd r)"] exI [of _ ?t']) simp
qed

theorem offer_price_round_trip_witness:
  "(0::int) \<le> 1999 \<and> (1999::int) < 10000000000
   \<and> select_by_id demo_offers (next_id demo_offers) = []
   \<and> select_by_id demo_offers 1 \<noteq> []
   \<and> fst (offers_post \<lparr>o_title = ''Review'', o_description = ''Contract review'', o_price = 1999 / 100\<rparr>
            demo_offers) =
       JsonMessage 201 ''Offer created successfully''
         (2, \<lparr>o_title = ''Review'', o_description = ''Contract review'', o_price = 1999 / 100\<rparr>)
   \<and> fst (offers_patch (Num 1) \<lparr>ou_title = None, ou_description = None, ou_price = Some (1999 / 100)\<rparr>
            demo_offers) =
       JsonMessage 200 ''Offer updated successfully''
         (1, \<lparr>o_title = ''Audit'', o_description = ''Yearly audit'', o_price = 1999 / 100\<rparr>)"
proof -
  have n: "next_id demo_offers = 2" by (simp add: demo_offers_def)
  have s2: "select_by_id demo_offers (next_id demo_offers) = []"
    by (simp add: select_by_id_def demo_offers_def)
  have s1: "select_by_id demo_offers 1 \<noteq> []"
    by (simp add: select_by_id_def demo_offers_def)
  have "\<exists>row t'. offers_patch (Num 1)
                  \<lparr>ou_title = None, ou_description = None, ou_price = Some (1999 / 100)\<rparr> demo_offers =
                (JsonMessage 200 ''Offer updated successfully'' (1, row), t')
              \<and> o_price row = 1999 / 100
              \<and> offers_get_by_id t' (Num 1) = JsonData (1, row)"
    and c: "\<exists>t'. offers_post \<lparr>o_title = ''Review'', o_description = ''Contract review'',
                                o_price = 1999 / 100\<rparr> demo_offers =
            (JsonMessage 201 ''Offer created successfully''
               (2, \<lparr>o_title = ''Review'', o_description = ''Contract review'', o_price = 1999 / 100\<rparr>), t')
          \<and> offers_get_by_id t' (Num 2) =
              JsonData (2, \<lparr>o_title = ''Review'', o_description = ''Contract review'',
                            o_price = 1999 / 100\<rparr>)"
    using offer_price_round_trip [of 1999 "''Review''" "''Contract review''" demo_offers 1] n s2 s1
    by simp_all
  have p: "fst (offers_patch (Num 1)
              \<lparr>ou_title = None, ou_description = None, ou_price = Some (1999 / 100)\<rparr> demo_offers) =
       JsonMessage 200 ''Offer updated successfully''
         (1, \<lparr>o_title = ''Audit'', o_description = ''Yearly audit'', o_price = 1999 / 100\<rparr>)"
  proof -
    have "id_param (Num 1) = Some 1" by (simp add: id_param_def coerce_number_min_small)
    moreover have "pg_int4 1 = Some 1" using pg_int4_of_int [of 1] by simp
    moreover have "pg_numeric_10_2 (1999 / 100) = Some (1999 / 100)"
      using pg_numeric_10_2_cents [of 1999] by simp
    ultimately show ?thesis
      by (simp add: offers_patch_def OfferUpdateSchema_def offer_no_keys_def opt_ok_def
            update_rows_def set_opt_def demo_offers_def Let_def)
  qed
  show ?thesis
    using c s1 s2 p by auto
qed

section \<open>Properties of the contact mailer\<close>

text \<open>
  C7. For every contact-form request that passes \<open>EmailSendSchema\<close> (non-empty first
  name, last name and message, valid address), the route hands exactly one message to
  the mailer; its \<open>from\<close> is the sender's own address, its \<open>to\<close> is the configured
  \<open>EMAIL_TO\<close>, and its subject is \<open>New Contact Form Message from \<close> followed by the
  first and last name separated by a space. The answer is 200 when the mailer accepts
  the message and 500 when it throws.
\<close>

theorem email_post_dispatch:
  assumes "EmailSendSchema e d"
  shows "\<exists>opts. snd (email_post e d) = [opts]
           \<and> mail_from opts = email d
           \<and> mail_to opts = EMAIL_TO e
           \<and> mail_subject opts = ''New Contact Form Message from '' @ firstname d @ '' '' @ lastname d
           \<and> str_includes (mail_subject opts) (firstname d @ '' '' @ lastname d)
           \<and> status (fst (email_post e d)) = (if sendMail e opts = Sent then 200 else 500)"
proof -
  let ?subject = "''New Contact Form Message from '' @ firstname d @ '' '' @ lastname d"
  let ?opts = "\<lparr>mail_from = email d, mail_to = EMAIL_TO e, mail_subject = ?subject,
                mail_text = message d,
                mail_html = generateEmailTemplate e
                  (firstname d @ '' '' @ lastname d @ '' <'' @ email d @ ''>'') ?subject (message d)\<rparr>"
  have sent: "snd (email_post e d) = [?opts]"
    using assms by (simp add: email_post_def Let_def split: send_result.splits)
  have answer: "status (fst (email_post e d)) = (if sendMail e ?opts = Sent then 200 else 500)"
    using assms by (simp add: email_post_def Let_def split: send_result.splits)
  have "str_includes (''New Contact Form Message from '' @ (firstname d @ '' '' @ lastname d) @ [])
          (firstname d @ '' '' @ lastname d)"
    by (rule str_includes_append)
  then have inc: "str_includes (mail_subject ?opts) (firstname d @ '' '' @ lastname d)"
    by simp
  have "snd (email_post e d) = [?opts] \<and> mail_from ?opts = email d \<and> mail_to ?opts = EMAIL_TO e
      \<and> mail_subject ?opts = ?subject
      \<and> str_includes (mail_subject ?opts) (firstname d @ '' '' @ lastname d)
      \<and> status (fst (email_post e d)) = (if sendMail e ?opts = Sent then 200 else 500)"
    using sent answer inc by simp
  then show ?thesis by (rule exI)
qed

theorem email_post_dispatch_witness:
  "EmailSendSchema demo_mail_env
     \<lparr>firstname = ''A'', lastname = ''B'', email = ''a@b.com'', message = ''hi''\<rparr>
   \<and> email_post demo_mail_env \<lparr>firstname = ''A'', lastname = ''B'', email = ''a@b.com'', message = ''hi''\<rparr> =
       (JsonMessage 200 ''Email sent successfully'' (),
        [\<lparr>mail_from = ''a@b.com'', mail_to = ''office@example.com'',
          mail_subject = ''New Contact Form Message from A B'', mail_text = ''hi'', mail_html = ''hi''\<rparr>])
   \<and> str_includes ''New Contact Form Message from A B'' ''A B''"
proof -
  have s: "EmailSendSchema demo_mail_env
     \<lparr>firstname = ''A'', lastname = ''B'', email = ''a@b.com'', message = ''hi''\<rparr>"
    by (simp add: EmailSendSchema_def demo_mail_env_def)
  have p: "email_post demo_mail_env \<lparr>firstname = ''A'', lastname = ''B'', email = ''a@b.com'', message = ''hi''\<rparr> =
       (JsonMessage 200 ''Email sent successfully'' (),
        [\<lparr>mail_from = ''a@b.com'', mail_to = ''office@example.com'',
          mail_subject = ''New Contact Form Message from A B'', mail_text = ''hi'', mail_html = ''hi''\<rparr>])"
    using s by (simp add: email_post_def demo_mail_env_def Let_def)
  show ?thesis
    using email_post_dispatch [OF s] s p by simp
qed

end
